theory Spec2Isabelle
  imports Complex_Main "HOL-Library.Monad_Syntax"
begin

section \<open>Python values\<close>

text \<open>
  The solver of \<^verbatim>\<open>simulation.py\<close> is embedded over the real numbers: a Python float is
  a \<^typ>\<open>real\<close>, arithmetic is exact, and the marker \<^verbatim>\<open>np.nan\<close> is written
  \<^term>\<open>None\<close> in a \<^typ>\<open>real option\<close> wherever the code produces or tests it.
  An exception is a value of \<open>error\<close>, returned on the left of a sum.
\<close>

datatype error = ValueError | KeyError | IndexError | ZeroDivisionError

text \<open>
  A Python \<^verbatim>\<open>str\<close> is a sequence of Unicode code points. The mode identifiers use
  the mathematical bold capitals O (U+1D40E), E (U+1D404), X (U+1D417), Y (U+1D418),
  Z (U+1D419) and the rightwards arrow (U+2192); everything else in them is ASCII.
\<close>

type_synonym pystr = "nat list"

definition asc :: "string \<Rightarrow> pystr" where
  "asc s = map of_char s"

definition BoldO :: nat where "BoldO = 119822"
definition BoldE :: nat where "BoldE = 119812"
definition BoldX :: nat where "BoldX = 119831"
definition BoldY :: nat where "BoldY = 119832"
definition BoldZ :: nat where "BoldZ = 119833"
definition Arrow :: nat where "Arrow = 8594"

text \<open>\<^verbatim>\<open>s.split(sep)\<close> for a separator of one code point: never empty, one more piece
  than there are separators.\<close>

fun py_split :: "nat \<Rightarrow> pystr \<Rightarrow> pystr list" where
  "py_split sep [] = [[]]"
| "py_split sep (c # cs) =
     (let r = py_split sep cs
      in if c = sep then [] # r else (c # hd r) # tl r)"

text \<open>\<^verbatim>\<open>str.isspace\<close> on one code point, and \<^verbatim>\<open>s.strip()\<close>.\<close>

definition is_space :: "nat \<Rightarrow> bool" where
  "is_space c \<longleftrightarrow>
     (9 \<le> c \<and> c \<le> 13) \<or> (28 \<le> c \<and> c \<le> 32) \<or> c = 133 \<or> c = 160 \<or> c = 5760
     \<or> (8192 \<le> c \<and> c \<le> 8202) \<or> c = 8232 \<or> c = 8233 \<or> c = 8239 \<or> c = 8287
     \<or> c = 12288"

definition py_strip :: "pystr \<Rightarrow> pystr" where
  "py_strip s = rev (dropWhile is_space (rev (dropWhile is_space s)))"

text \<open>\<^verbatim>\<open>s.index(c)\<close>; the source calls it only under the guard \<^verbatim>\<open>c in s\<close>.\<close>

definition py_index :: "pystr \<Rightarrow> nat \<Rightarrow> nat" where
  "py_index s c = length (takeWhile (\<lambda>x. x \<noteq> c) s)"

text \<open>
  \<^verbatim>\<open>re.findall(r'(\d+)nm', s)\<close>. A match starts at a digit, takes the whole run of
  digits (the greedy \<^verbatim>\<open>\d+\<close>; giving digits back cannot help, the next character would be
  a digit and not \<^verbatim>\<open>n\<close>) and needs \<^verbatim>\<open>nm\<close> right after it; the scan resumes behind a
  match, and one position further otherwise. The class \<^verbatim>\<open>\d\<close> is modelled on the ASCII
  digits, the only ones the program's own formatter writes.
\<close>

definition is_digit :: "nat \<Rightarrow> bool" where
  "is_digit c \<longleftrightarrow> 48 \<le> c \<and> c \<le> 57"

function findall_nm :: "pystr \<Rightarrow> pystr list" where
  "findall_nm [] = []"
| "findall_nm (c # cs) =
     (if is_digit c then
        (let ds = takeWhile is_digit (c # cs); rest = dropWhile is_digit (c # cs)
         in if take 2 rest = [110, 109] then ds # findall_nm (drop 2 rest)
            else findall_nm cs)
      else findall_nm cs)"
  by pat_completeness auto
termination
proof (relation "measure length")
  show "wf (measure length)" by simp
next
  fix c :: nat and cs ds rest :: pystr
  assume "rest = dropWhile is_digit (c # cs)"
  then have "length (drop 2 rest) \<le> length (c # cs)"
    using length_dropWhile_le [of is_digit "c # cs"] by simp
  moreover assume "take 2 rest = [110, 109]"
  then have "2 \<le> length rest"
    by (metis length_take min.cobounded1 length_Cons list.size(3) One_nat_def Suc_1)
  ultimately show "(drop 2 rest, c # cs) \<in> measure length"
    using \<open>rest = dropWhile is_digit (c # cs)\<close> length_dropWhile_le [of is_digit "c # cs"]
    by simp
qed simp_all

text \<open>\<^verbatim>\<open>float(ds)\<close> on a string of ASCII digits.\<close>

definition float_of_digits :: "pystr \<Rightarrow> real" where
  "float_of_digits ds = real (foldl (\<lambda>a d. 10 * a + (d - 48)) 0 ds)"

text \<open>
  The format \<^verbatim>\<open>f"{x:.0f}"\<close>: \<open>x\<close> rounded to an integer, ties to the even one, written
  in decimal, with a minus sign for every negative \<open>x\<close> (\<^verbatim>\<open>-0\<close> included).
\<close>

definition round_half_even :: "real \<Rightarrow> int" where
  "round_half_even x =
     (let f = \<lfloor>x\<rfloor>; d = x - of_int f
      in if d < 1 / 2 then f else if 1 / 2 < d then f + 1
         else if even f then f else f + 1)"

fun digits_of :: "nat \<Rightarrow> pystr" where
  "digits_of n = (if n < 10 then [48 + n] else digits_of (n div 10) @ [48 + n mod 10])"

definition fmt0 :: "real \<Rightarrow> pystr" where
  "fmt0 x = (if x < 0 then [45] else []) @ digits_of (nat \<bar>round_half_even x\<bar>)"

section \<open>Configuration\<close>

text \<open>
  \<^verbatim>\<open>SimulationConfig\<close> of \<^verbatim>\<open>configuration.py\<close>. The three principal indices come from
  \<^verbatim>\<open>get_indices\<close>, which converts the wavelength to micrometres and the temperature to
  its offset from 20 degrees and then evaluates the dispersion formulas selected by the
  crystal and the formula source. The formulas are the field \<open>sellmeier\<close>: the solver
  only ever reads their result, and every theorem below holds for each of them.
\<close>

record indices =
  n_x :: real
  n_y :: real
  n_z :: real

datatype axis_key = Key_n_x | Key_n_y | Key_n_z

fun index_at :: "indices \<Rightarrow> axis_key \<Rightarrow> real" where
  "index_at i Key_n_x = n_x i"
| "index_at i Key_n_y = n_y i"
| "index_at i Key_n_z = n_z i"

datatype process = SHG | SFG

datatype plane = XZ | YZ | XY

record crystal_info =
  group :: string
  d :: "string \<rightharpoonup> real"

record config =
  crystal_name :: string
  process_type :: process
  wavelength1_nm :: real
  wavelength2_nm :: real
  wavelength_out_nm :: real
  plane :: plane
  temperature :: real
  crystal_db :: "string \<rightharpoonup> crystal_info"
  sellmeier :: "real \<Rightarrow> real \<Rightarrow> indices"

definition wavelength_out_um :: "config \<Rightarrow> real" where
  "wavelength_out_um c = wavelength_out_nm c / 1000"

definition default_crystal_db :: "string \<rightharpoonup> crystal_info" where
  "default_crystal_db =
     [''BBO'' \<mapsto> \<lparr>group = ''3m'',
         d = [''d22'' \<mapsto> 2.2, ''d31'' \<mapsto> 0.04, ''d15'' \<mapsto> 0.04, ''d11'' \<mapsto> 0.02]\<rparr>,
      ''KDP'' \<mapsto> \<lparr>group = ''4bar2m'', d = [''d36'' \<mapsto> 0.39, ''d14'' \<mapsto> 0.39]\<rparr>,
      ''DKDP'' \<mapsto> \<lparr>group = ''4bar2m'', d = [''d36'' \<mapsto> 0.37, ''d14'' \<mapsto> 0.37]\<rparr>,
      ''CLBO'' \<mapsto> \<lparr>group = ''4bar2m'', d = [''d36'' \<mapsto> 0.95, ''d14'' \<mapsto> 0.95]\<rparr>,
      ''LBO'' \<mapsto> \<lparr>group = ''mm2'',
         d = [''d31'' \<mapsto> 1.05, ''d32'' \<mapsto> 0.85, ''d33'' \<mapsto> 0.05, ''d15'' \<mapsto> 1.05,
              ''d24'' \<mapsto> 0.85]\<rparr>,
      ''KTP'' \<mapsto> \<lparr>group = ''mm2'',
         d = [''d31'' \<mapsto> 2.20, ''d32'' \<mapsto> 3.70, ''d33'' \<mapsto> 14.6, ''d15'' \<mapsto> 2.2,
              ''d24'' \<mapsto> 3.7]\<rparr>]"

text \<open>
  The constructor. For SHG the second wavelength is the first and the output is half of
  it; for SFG the output is \<open>1 / (1 / w1 + 1 / w2)\<close>, and each of the three divisions
  raises \<^verbatim>\<open>ZeroDivisionError\<close> on a zero divisor.
\<close>

definition SimulationConfig ::
  "string \<Rightarrow> real \<Rightarrow> real \<Rightarrow> plane \<Rightarrow> process \<Rightarrow> real option \<Rightarrow> (real \<Rightarrow> real \<Rightarrow> indices)
   \<Rightarrow> error + config" where
  "SimulationConfig name wavelength temp pl ptype wavelength2 formulas =
     (let w2 = (case wavelength2 of None \<Rightarrow> wavelength
                | Some w \<Rightarrow> if ptype = SHG then wavelength else w);
          mk = (\<lambda>out. \<lparr>crystal_name = name, process_type = ptype, wavelength1_nm = wavelength,
                  wavelength2_nm = w2, wavelength_out_nm = out, plane = pl,
                  temperature = temp, crystal_db = default_crystal_db,
                  sellmeier = formulas\<rparr>)
      in if ptype = SHG then Inr (mk (wavelength / 2))
         else if wavelength = 0 \<or> w2 = 0 \<or> 1 / wavelength + 1 / w2 = 0
           then Inl ZeroDivisionError
         else Inr (mk (1 / (1 / wavelength + 1 / w2))))"

definition get_indices :: "config \<Rightarrow> real option \<Rightarrow> real option \<Rightarrow> indices" where
  "get_indices c target_wavelength target_temperature =
     (let wavelength = (case target_wavelength of None \<Rightarrow> wavelength1_nm c / 1000
                        | Some w \<Rightarrow> w / 1000);
          dtemp = (case target_temperature of None \<Rightarrow> temperature c - 20
                   | Some t \<Rightarrow> t - 20)
      in sellmeier c wavelength dtemp)"

section \<open>The solver\<close>

subsection \<open>Effective-index mixer\<close>

definition ne_func :: "real \<Rightarrow> real \<Rightarrow> real \<Rightarrow> real" where
  "ne_func n_cos n_sin theta =
     sqrt ((n_cos\<^sup>2 * n_sin\<^sup>2) / (n_cos\<^sup>2 * (cos theta)\<^sup>2 + n_sin\<^sup>2 * (sin theta)\<^sup>2))"

subsection \<open>Construction\<close>

text \<open>
  \<^verbatim>\<open>Solver.__init__\<close> fixes, from the plane, which principal index is the static
  (ordinary) one and which two are mixed with \<open>cos\<^sup>2\<close> and \<open>sin\<^sup>2\<close>; it fixes the preset
  weights from the configured wavelengths, and it writes the mode identifiers. Only the
  attributes that the methods below read are kept.
\<close>

record solver =
  cfg :: config
  key_static :: axis_key
  key_cos :: axis_key
  key_sin :: axis_key
  weight1 :: real
  weight2 :: real
  mode_names :: "pystr list"

fun plane_config :: "plane \<Rightarrow> axis_key \<times> axis_key \<times> axis_key" where
  "plane_config XZ = (Key_n_y, Key_n_z, Key_n_x)"
| "plane_config YZ = (Key_n_x, Key_n_z, Key_n_y)"
| "plane_config XY = (Key_n_z, Key_n_x, Key_n_y)"

text \<open>One identifier: two labelled inputs, the arrow, the labelled output, the type tag.
  The wavelength labels come with their unit, as \<^verbatim>\<open>f"{w:.0f}nm"\<close> gives them.\<close>

definition mode_name_of :: "nat \<Rightarrow> pystr \<Rightarrow> nat \<Rightarrow> pystr \<Rightarrow> nat \<Rightarrow> pystr \<Rightarrow> string \<Rightarrow> pystr" where
  "mode_name_of p1 l1 p2 l2 po lo ty =
     [p1] @ asc '' ('' @ l1 @ asc '') + '' @ [p2] @ asc '' ('' @ l2 @ asc '') '' @ [Arrow]
     @ asc '' '' @ [po] @ asc '' ('' @ lo @ asc '') ('' @ asc ty @ asc '')''"

definition nm_label :: "real \<Rightarrow> pystr" where
  "nm_label w = fmt0 w @ asc ''nm''"

definition mode_names_of :: "config \<Rightarrow> pystr list" where
  "mode_names_of c =
     (if process_type c = SHG then
        (let lw = nm_label (wavelength1_nm c); l2w = nm_label (wavelength_out_nm c)
         in [mode_name_of BoldO lw BoldO lw BoldE l2w ''Type I'',
             mode_name_of BoldE lw BoldE lw BoldO l2w ''Type I'',
             mode_name_of BoldO lw BoldE lw BoldE l2w ''Type II'',
             mode_name_of BoldO lw BoldE lw BoldO l2w ''Type II''])
      else
        (let l1 = nm_label (wavelength1_nm c); l2 = nm_label (wavelength2_nm c);
             lout = nm_label (wavelength_out_nm c)
         in [mode_name_of BoldO l1 BoldO l2 BoldE lout ''Type I'',
             mode_name_of BoldE l1 BoldE l2 BoldO lout ''Type I'',
             mode_name_of BoldO l1 BoldE l2 BoldE lout ''Type II'',
             mode_name_of BoldO l2 BoldE l1 BoldE lout ''Type II'',
             mode_name_of BoldO l1 BoldE l2 BoldO lout ''Type II'',
             mode_name_of BoldO l2 BoldE l1 BoldO lout ''Type II'']))"

definition Solver_init :: "config \<Rightarrow> error + solver" where
  "Solver_init c =
     (let (k_static, k_cos, k_sin) = plane_config (plane c);
          mk = (\<lambda>a b. \<lparr>cfg = c, key_static = k_static, key_cos = k_cos, key_sin = k_sin,
                  weight1 = a, weight2 = b, mode_names = mode_names_of c\<rparr>)
      in if process_type c = SHG then Inr (mk 0.5 0.5)
         else if wavelength1_nm c = 0 \<or> wavelength2_nm c = 0 then Inl ZeroDivisionError
         else Inr (mk (wavelength_out_nm c / wavelength1_nm c)
                      (wavelength_out_nm c / wavelength2_nm c)))"

subsection \<open>Phase-mismatch evaluator\<close>

text \<open>
  \<^verbatim>\<open>delta_n\<close> adds two weighted input indices and subtracts the output index. The five
  numbers it combines are kept in a record, so that the weights of an evaluation can be
  named; \<open>delta_n\<close> itself is the combination.
\<close>

record terms =
  w1 :: real
  n1 :: real
  w2 :: real
  n2 :: real
  n_out :: real

definition is_xyz_notation :: "pystr \<Rightarrow> bool" where
  "is_xyz_notation mode_name \<longleftrightarrow>
     BoldX \<in> set mode_name \<or> BoldY \<in> set mode_name \<or> BoldZ \<in> set mode_name"

definition extract_xyz_pol :: "pystr \<Rightarrow> nat option" where
  "extract_xyz_pol text =
     (if BoldX \<in> set text then Some BoldX
      else if BoldY \<in> set text then Some BoldY
      else if BoldZ \<in> set text then Some BoldZ
      else None)"

definition xyz_to_key :: "nat \<rightharpoonup> axis_key" where
  "xyz_to_key = [BoldX \<mapsto> Key_n_x, BoldY \<mapsto> Key_n_y, BoldZ \<mapsto> Key_n_z]"

text \<open>The dictionary lookup \<^verbatim>\<open>xyz_to_key[pol]\<close>; a missing label is the key
  \<^verbatim>\<open>None\<close>, which the dictionary does not have.\<close>

definition xyz_key :: "nat option \<Rightarrow> error + axis_key" where
  "xyz_key pol =
     (case pol of None \<Rightarrow> Inl KeyError
      | Some p \<Rightarrow> (case xyz_to_key p of None \<Rightarrow> Inl KeyError | Some k \<Rightarrow> Inr k))"

definition delta_n_xyz ::
  "solver \<Rightarrow> indices \<Rightarrow> indices \<Rightarrow> indices \<Rightarrow> pystr \<Rightarrow> pystr \<Rightarrow> error + terms" where
  "delta_n_xyz s indices_w1 indices_w2 indices_out input_part output_part =
     (let input_beams = py_split 43 input_part;
          pol1 = extract_xyz_pol (input_beams ! 0);
          pol2 = (if 1 < length input_beams then extract_xyz_pol (input_beams ! 1) else pol1);
          pol_out = extract_xyz_pol output_part
      in case xyz_key pol1 of Inl e \<Rightarrow> Inl e
         | Inr k1 \<Rightarrow>
        (case xyz_key pol2 of Inl e \<Rightarrow> Inl e
         | Inr k2 \<Rightarrow>
        (case xyz_key pol_out of Inl e \<Rightarrow> Inl e
         | Inr k_out \<Rightarrow>
           Inr \<lparr>w1 = weight1 s, n1 = index_at indices_w1 k1,
                w2 = weight2 s, n2 = index_at indices_w2 k2,
                n_out = index_at indices_out k_out\<rparr>)))"

text \<open>The labels of the input part with the position of their first occurrence, in the
  order of these positions.\<close>

definition input_pols :: "pystr \<Rightarrow> (nat \<times> nat) list" where
  "input_pols input_part =
     sort_key snd
       ((if BoldO \<in> set input_part then [(BoldO, py_index input_part BoldO)] else [])
        @ (if BoldE \<in> set input_part then [(BoldE, py_index input_part BoldE)] else []))"

definition output_pol :: "pystr \<Rightarrow> nat" where
  "output_pol output_part =
     (if BoldE \<in> set (py_split 40 output_part ! 0) then BoldE else BoldO)"

text \<open>The index of one beam: the static index for an ordinary beam, the mixer at the
  angle for an extraordinary one.\<close>

definition beam_index :: "solver \<Rightarrow> nat \<Rightarrow> indices \<Rightarrow> real \<Rightarrow> real" where
  "beam_index s pol ind theta =
     (if pol = BoldO then index_at ind (key_static s)
      else ne_func (index_at ind (key_cos s)) (index_at ind (key_sin s)) theta)"

definition delta_n_oe ::
  "solver \<Rightarrow> pystr \<Rightarrow> real option \<Rightarrow> real \<Rightarrow> real \<Rightarrow> real \<Rightarrow> indices \<Rightarrow> indices \<Rightarrow> indices
   \<Rightarrow> pystr \<Rightarrow> pystr \<Rightarrow> error + terms" where
  "delta_n_oe s mode_name theta wl1 wl2 wl_out indices_w1 indices_w2 indices_out
       input_part output_part =
     (let wavelengths_in_mode = findall_nm mode_name
      in if length wavelengths_in_mode < 3 then Inl ValueError
         else
          (let wl_beam1_str = float_of_digits (wavelengths_in_mode ! 0);
               tolerance = 1;
               same_order = (\<bar>wl_beam1_str - wl1\<bar> < tolerance);
               indices_beam1 = (if same_order then indices_w1 else indices_w2);
               indices_beam2 = (if same_order then indices_w2 else indices_w1);
               actual_wl1 = (if same_order then wl1 else wl2);
               actual_wl2 = (if same_order then wl2 else wl1);
               pols = input_pols input_part
           in if pols = [] then Inl IndexError
              else
               (let pol1 = fst (pols ! 0);
                    pol2 = (if 1 < length pols then fst (pols ! 1) else fst (pols ! 0));
                    pol_out = output_pol output_part
                in if theta = None \<and> (pol1 = BoldE \<or> pol2 = BoldE \<or> pol_out = BoldE)
                   then Inl ValueError
                   else
                    (let th = (case theta of Some t \<Rightarrow> t | None \<Rightarrow> 0);
                         b1 = beam_index s pol1 indices_beam1 th;
                         b2 = beam_index s pol2 indices_beam2 th;
                         b_out = beam_index s pol_out indices_out th
                     in if process_type (cfg s) = SHG
                        then Inr \<lparr>w1 = 0.5, n1 = b1, w2 = 0.5, n2 = b2, n_out = b_out\<rparr>
                        else if actual_wl1 = 0 \<or> actual_wl2 = 0 then Inl ZeroDivisionError
                        else Inr \<lparr>w1 = wl_out / actual_wl1, n1 = b1,
                                  w2 = wl_out / actual_wl2, n2 = b2, n_out = b_out\<rparr>))))"

text \<open>
  In \<open>delta_n_oe\<close> the angle is read only by extraordinary beams, and the guard before
  leaves none of them when the angle is absent: the value standing for an absent angle
  is not read. A zero wavelength makes the division of the SFG weights raise.
\<close>

text \<open>An argument that is \<^verbatim>\<open>None\<close> is filled with the configured value; the value in
  effect is the override when there is one.\<close>

definition in_effect :: "real option \<Rightarrow> real \<Rightarrow> real" where
  "in_effect override configured = (case override of None \<Rightarrow> configured | Some v \<Rightarrow> v)"

definition delta_n_terms ::
  "solver \<Rightarrow> pystr \<Rightarrow> real option \<Rightarrow> real option \<Rightarrow> real option \<Rightarrow> real option \<Rightarrow> real option
   \<Rightarrow> error + terms" where
  "delta_n_terms s mode_name theta wavelength1 wavelength2 wavelength_out temp_arg =
     (let wl1 = in_effect wavelength1 (wavelength1_nm (cfg s));
          wl2 = in_effect wavelength2 (wavelength2_nm (cfg s));
          wl_out = in_effect wavelength_out (wavelength_out_nm (cfg s));
          temp = in_effect temp_arg (temperature (cfg s));
          indices_w1 = get_indices (cfg s) (Some wl1) (Some temp);
          indices_w2 = get_indices (cfg s) (Some wl2) (Some temp);
          indices_out = get_indices (cfg s) (Some wl_out) (Some temp);
          parts = py_split Arrow mode_name
      in if length parts \<noteq> 2 then Inl ValueError
         else
          (let input_part = py_strip (parts ! 0); output_part = py_strip (parts ! 1)
           in if is_xyz_notation mode_name
              then delta_n_xyz s indices_w1 indices_w2 indices_out input_part output_part
              else delta_n_oe s mode_name theta wl1 wl2 wl_out indices_w1 indices_w2
                     indices_out input_part output_part))"

definition delta_n ::
  "solver \<Rightarrow> pystr \<Rightarrow> real option \<Rightarrow> real option \<Rightarrow> real option \<Rightarrow> real option \<Rightarrow> real option
   \<Rightarrow> error + real" where
  "delta_n s mode_name theta wavelength1 wavelength2 wavelength_out temp_arg =
     (case delta_n_terms s mode_name theta wavelength1 wavelength2 wavelength_out temp_arg of
        Inl e \<Rightarrow> Inl e
      | Inr t \<Rightarrow> Inr (w1 t * n1 t + w2 t * n2 t - n_out t))"

subsection \<open>Critical-angle solver\<close>

text \<open>
  \<^verbatim>\<open>scipy.optimize.fsolve\<close> is a parameter: any function from the equation and the
  initial guess to a root and the convergence flag \<open>ier\<close>, or to the exception that
  evaluating the equation raised. What \<^verbatim>\<open>robust_solve\<close> does with its answer is the
  code's own.
\<close>

type_synonym root_finder = "(real \<Rightarrow> error + real) \<Rightarrow> real \<Rightarrow> error + real \<times> int"

definition rad2deg :: "real \<Rightarrow> real" where
  "rad2deg x = x * (180 / pi)"

definition deg2rad :: "real \<Rightarrow> real" where
  "deg2rad x = x * (pi / 180)"

definition robust_solve :: "root_finder \<Rightarrow> (real \<Rightarrow> error + real) \<Rightarrow> real \<Rightarrow> error + real option" where
  "robust_solve fsolve equation_func guess =
     (case fsolve equation_func guess of
        Inl e \<Rightarrow> Inl e
      | Inr (rt, ier) \<Rightarrow>
          if ier = 1 then
            (let theta_res = rt
             in if 0 \<le> theta_res \<and> theta_res \<le> pi / 2 then
                  (case equation_func theta_res of
                     Inl e \<Rightarrow> Inl e
                   | Inr v \<Rightarrow> (let residual = \<bar>v\<bar>
                       in if residual < 1 / 10000 then Inr (Some theta_res) else Inr None))
                else Inr None)
          else Inr None)"

text \<open>The keys of a dictionary built from a list of keys: each key once, at the place of
  its first occurrence.\<close>

definition dict_keys :: "'a list \<Rightarrow> 'a list" where
  "dict_keys xs = rev (remdups (rev xs))"

definition equations_deltan :: "solver \<Rightarrow> pystr \<Rightarrow> real \<Rightarrow> error + real" where
  "equations_deltan s m theta = delta_n s m (Some theta) None None None None"

fun criticalangle_loop ::
  "root_finder \<Rightarrow> solver \<Rightarrow> pystr list \<Rightarrow> error + (pystr \<times> real option) list" where
  "criticalangle_loop fsolve s [] = Inr []"
| "criticalangle_loop fsolve s (mode_name # ms) =
     (case robust_solve fsolve (equations_deltan s mode_name) (pi / 4) of
        Inl e \<Rightarrow> Inl e
      | Inr theta_val \<Rightarrow>
         (let theta_deg = (case theta_val of None \<Rightarrow> None | Some t \<Rightarrow> Some (rad2deg t))
          in case criticalangle_loop fsolve s ms of
               Inl e \<Rightarrow> Inl e
             | Inr rest \<Rightarrow> Inr ((mode_name, theta_deg) # rest)))"

definition criticalangle :: "root_finder \<Rightarrow> solver \<Rightarrow> error + (pystr \<times> real option) list" where
  "criticalangle fsolve s = criticalangle_loop fsolve s (dict_keys (mode_names s))"

subsection \<open>Walk-off calculator\<close>

text \<open>
  The code formats each mode's three beams into one string, an ordinary beam as zero and
  an extraordinary one with its walk-off in degrees and milliradians. The entry of the
  model holds the three beams with the numbers before formatting: label, degrees,
  milliradians.
\<close>

datatype walkoff_entry =
  Walkoff_nan | Walkoff_format_error | Walkoff "(nat \<times> real \<times> real) list"

definition calc_walkoff :: "solver \<Rightarrow> real \<Rightarrow> nat \<Rightarrow> real \<Rightarrow> real \<times> real" where
  "calc_walkoff s theta_rad pol wavelength_nm =
     (if pol = BoldO then (0, 0)
      else
       (let ind = get_indices (cfg s) (Some wavelength_nm) None;
            (a, b) = (case plane (cfg s) of
                        XY \<Rightarrow> (n_x ind, n_y ind)
                      | XZ \<Rightarrow> (n_z ind, n_x ind)
                      | YZ \<Rightarrow> (n_z ind, n_y ind));
            tan_theta_normal = (a\<^sup>2 / b\<^sup>2) * tan theta_rad;
            theta_normal_rad = arctan tan_theta_normal;
            rho_rad = theta_rad - theta_normal_rad;
            rho_deg = rad2deg rho_rad;
            rho_mrad = rho_rad * 1000
        in (rho_deg, rho_mrad)))"

definition walkoff_one :: "solver \<Rightarrow> pystr \<Rightarrow> real option \<Rightarrow> error + walkoff_entry" where
  "walkoff_one s mode_name theta_deg =
     (case theta_deg of
        None \<Rightarrow> Inr Walkoff_nan
      | Some td \<Rightarrow>
         (let theta_rad = deg2rad td; parts = py_split Arrow mode_name
          in if length parts \<noteq> 2 then Inr Walkoff_format_error
             else
              (let input_part = py_strip (parts ! 0); output_part = py_strip (parts ! 1);
                   pols = input_pols input_part
               in if pols = [] then Inl IndexError
                  else
                   (let pol1 = fst (pols ! 0);
                        pol2 = (if 1 < length pols then fst (pols ! 1) else fst (pols ! 0));
                        pol_out = output_pol output_part;
                        wavelength1 = wavelength1_nm (cfg s);
                        wavelength2 = (if process_type (cfg s) = SFG
                                       then wavelength2_nm (cfg s) else wavelength1);
                        wavelength_out = wavelength_out_nm (cfg s);
                        (rho1_deg, rho1_mrad) = calc_walkoff s theta_rad pol1 wavelength1;
                        (rho2_deg, rho2_mrad) = calc_walkoff s theta_rad pol2 wavelength2;
                        (rho_out_deg, rho_out_mrad) =
                           calc_walkoff s theta_rad pol_out wavelength_out
                    in Inr (Walkoff [(pol1, rho1_deg, rho1_mrad), (pol2, rho2_deg, rho2_mrad),
                                     (pol_out, rho_out_deg, rho_out_mrad)])))))"

fun walkoff_angle ::
  "solver \<Rightarrow> (pystr \<times> real option) list \<Rightarrow> real \<Rightarrow> error + (pystr \<times> walkoff_entry) list" where
  "walkoff_angle s [] phi = Inr []"
| "walkoff_angle s ((mode_name, theta_deg) # rest) phi =
     (case walkoff_one s mode_name theta_deg of
        Inl e \<Rightarrow> Inl e
      | Inr r \<Rightarrow> (case walkoff_angle s rest phi of
                   Inl e \<Rightarrow> Inl e
                 | Inr rs \<Rightarrow> Inr ((mode_name, r) # rs)))"

subsection \<open>Effective-nonlinearity calculator\<close>

definition pol_letter :: "nat \<Rightarrow> char" where
  "pol_letter c = (if c = BoldO then CHR ''O'' else CHR ''E'')"

definition is_pol :: "nat \<Rightarrow> bool" where
  "is_pol c \<longleftrightarrow> c = BoldO \<or> c = BoldE"

definition get_mode_type :: "pystr \<Rightarrow> string option" where
  "get_mode_type mode_name =
     (if Arrow \<notin> set mode_name then None
      else
       (let parts = py_split Arrow mode_name;
            input_part = py_strip (parts ! 0);
            output_part = py_strip (parts ! 1);
            in_pols = filter is_pol input_part
        in case find is_pol output_part of
             None \<Rightarrow> None
           | Some out_pol \<Rightarrow>
               if length in_pols < 2 then None
               else
                (let pol1 = in_pols ! 0; pol2 = in_pols ! 1
                 in if pol1 = pol2
                    then Some [pol_letter pol1, pol_letter pol2, pol_letter out_pol]
                    else Some [CHR ''O'', CHR ''E'', pol_letter out_pol])))"

definition d_get :: "(string \<rightharpoonup> real) \<Rightarrow> string \<Rightarrow> real" where
  "d_get d_tensor k = (case d_tensor k of None \<Rightarrow> 0 | Some v \<Rightarrow> v)"

text \<open>
  The contraction for one mode. An angle that is \<^verbatim>\<open>nan\<close> makes every expression that
  reads it \<^verbatim>\<open>nan\<close>: the angles are \<^typ>\<open>real option\<close> and a formula binds exactly the
  angles it reads. Where no formula applies, \<^verbatim>\<open>d_value\<close> keeps its initial 0.
\<close>

definition d_value_of ::
  "crystal_info \<Rightarrow> plane \<Rightarrow> string \<Rightarrow> real option \<Rightarrow> real option \<Rightarrow> real option" where
  "d_value_of crystal pl mode_type theta_rad phi_rad =
     (if group crystal = ''4bar2m'' then
        (let d36 = d_get (d crystal) ''d36''
         in if mode_type = ''OOE''
              then do { t \<leftarrow> theta_rad; p \<leftarrow> phi_rad; Some (d36 * sin t * sin (2 * p)) }
            else if mode_type = ''EEO''
              then do { t \<leftarrow> theta_rad; p \<leftarrow> phi_rad; Some (d36 * sin (2 * t) * cos (2 * p)) }
            else if mode_type = ''OEE''
              then do { t \<leftarrow> theta_rad; p \<leftarrow> phi_rad; Some (d36 * sin (2 * t) * cos (2 * p)) }
            else if mode_type = ''OEO''
              then do { t \<leftarrow> theta_rad; p \<leftarrow> phi_rad; Some (d36 * sin t * sin (2 * p)) }
            else Some 0)
      else if group crystal = ''3m'' then
        (let d31 = d_get (d crystal) ''d31''; d11 = d_get (d crystal) ''d11'';
             d22 = d_get (d crystal) ''d22''; d15 = d_get (d crystal) ''d15''
         in if mode_type = ''OOE''
              then do { t \<leftarrow> theta_rad; p \<leftarrow> phi_rad;
                        Some (d31 * sin t + (d11 * cos (3 * p) - d22 * sin (3 * p)) * cos t) }
            else if mode_type = ''EEO''
              then do { t \<leftarrow> theta_rad; p \<leftarrow> phi_rad;
                        Some (d31 * sin t + (d22 * sin (3 * p) - d11 * cos (3 * p)) * cos t) }
            else if mode_type = ''OEE''
              then do { t \<leftarrow> theta_rad; p \<leftarrow> phi_rad;
                        Some ((d11 * sin (3 * p) + d22 * cos (3 * p)) * (cos t)\<^sup>2) }
            else if mode_type = ''OEO''
              then do { t \<leftarrow> theta_rad; p \<leftarrow> phi_rad;
                        Some (d15 * sin t + (d11 * cos (3 * p) - d22 * sin (3 * p)) * cos t) }
            else Some 0)
      else if group crystal = ''mm2'' then
        (let d31 = d_get (d crystal) ''d31''; d32 = d_get (d crystal) ''d32'';
             d33 = d_get (d crystal) ''d33''
         in case pl of
              XY \<Rightarrow>
                (if mode_type = ''OOE''
                   then do { p \<leftarrow> phi_rad; Some (d31 * (cos p)\<^sup>2 + d32 * (sin p)\<^sup>2) }
                 else if mode_type = ''EEO'' then Some d33
                 else Some 0)
            | YZ \<Rightarrow>
                (if mode_type = ''OOE'' then do { t \<leftarrow> theta_rad; Some (d31 * cos t) }
                 else if mode_type \<in> {''OEE'', ''OEO''}
                   then do { t \<leftarrow> theta_rad; Some (d31 * sin t) }
                 else Some 0)
            | XZ \<Rightarrow>
                (if mode_type = ''OOE'' then do { t \<leftarrow> theta_rad; Some (d32 * cos t) }
                 else if mode_type \<in> {''OEE'', ''OEO''}
                   then do { t \<leftarrow> theta_rad; Some (d32 * sin t) }
                 else Some 0))
      else Some 0)"

definition d_eff_one ::
  "solver \<Rightarrow> crystal_info \<Rightarrow> real option \<Rightarrow> pystr \<Rightarrow> real option \<Rightarrow> real option" where
  "d_eff_one s crystal selected_phi mode_name critical_angle_deg =
     (case get_mode_type mode_name of
        None \<Rightarrow> Some 0
      | Some mode_type \<Rightarrow>
         (let (theta_rad, phi_rad) =
                (case plane (cfg s) of
                   XY \<Rightarrow> (Some (deg2rad 90), map_option deg2rad critical_angle_deg)
                 | XZ \<Rightarrow> (map_option deg2rad critical_angle_deg,
                          Some (deg2rad (case selected_phi of None \<Rightarrow> 0 | Some p \<Rightarrow> p)))
                 | YZ \<Rightarrow> (map_option deg2rad critical_angle_deg,
                          Some (deg2rad (case selected_phi of None \<Rightarrow> 90 | Some p \<Rightarrow> p))));
              d_value = d_value_of crystal (plane (cfg s)) mode_type theta_rad phi_rad
          in map_option abs d_value))"

text \<open>
  \<^verbatim>\<open>d_eff\<close> looks the crystal up by name, which raises \<^verbatim>\<open>KeyError\<close> for a name the
  table does not have. An entry of the table always has its symmetry group and its
  tensor here, so the early return for an empty entry has no counterpart.
\<close>

definition d_eff ::
  "solver \<Rightarrow> (pystr \<times> real option) list \<Rightarrow> real option
   \<Rightarrow> error + (pystr \<times> real option) list" where
  "d_eff s theta_critical_dict selected_phi =
     (case crystal_db (cfg s) (crystal_name (cfg s)) of
        None \<Rightarrow> Inl KeyError
      | Some crystal \<Rightarrow>
          Inr (map (\<lambda>(mode_name, critical_angle_deg).
                 (mode_name, d_eff_one s crystal selected_phi mode_name critical_angle_deg))
               theta_critical_dict))"

subsection \<open>Acceptance-bandwidth analyzer\<close>

text \<open>
  The three scans take the dictionary of critical angles and read the entry of the
  target mode, which raises \<^verbatim>\<open>KeyError\<close> when there is none. The entries are angles in
  degrees: the scans are run on modes whose angle was solved. Each scan plots its
  efficiency curve over its axis; the result keeps both next to the width at half
  maximum and the secondary figure the variant returns.
\<close>

definition np_sinc :: "real \<Rightarrow> real" where
  "np_sinc x = (if x = 0 then 1 else sin (pi * x) / (pi * x))"

text \<open>\<^verbatim>\<open>np.arange(-step, step)\<close> for an integer \<open>step\<close>.\<close>

definition arange_steps :: "int \<Rightarrow> int list" where
  "arange_steps step = [- step..step - 1]"

text \<open>A list comprehension whose body may raise stops at the first exception.\<close>

fun sequence_err :: "(error + 'a) list \<Rightarrow> error + 'a list" where
  "sequence_err [] = Inr []"
| "sequence_err (x # xs) =
     (case x of
        Inl e \<Rightarrow> Inl e
      | Inr v \<Rightarrow> (case sequence_err xs of Inl e \<Rightarrow> Inl e | Inr vs \<Rightarrow> Inr (v # vs)))"

record bandwidth_result =
  scan_axis :: "real list"
  efficiency :: "real list"
  acceptance :: "real option"
  secondary :: "real option"

definition efficiency_curve :: "solver \<Rightarrow> real list \<Rightarrow> real list" where
  "efficiency_curve s delta_n_array =
     map (\<lambda>dn. (let delta_k = (pi * 2 / wavelength_out_um (cfg s)) * dn
                in (np_sinc (delta_k * 10000 / (2 * pi)))\<^sup>2)) delta_n_array"

text \<open>The span between the first and the last sample whose efficiency is at least one
  half; \<^verbatim>\<open>nan\<close> when there is none.\<close>

definition fwhm_span :: "real list \<Rightarrow> real list \<Rightarrow> real option" where
  "fwhm_span axis eff =
     (let half_max = 1 / 2;
          indices_above_half = filter (\<lambda>i. half_max \<le> eff ! i) [0..<length eff]
      in if indices_above_half = [] then None
         else (let lower_index = hd indices_above_half; upper_index = last indices_above_half
               in Some (axis ! upper_index - axis ! lower_index)))"

definition acceptance_angle ::
  "solver \<Rightarrow> (pystr \<times> real) list \<Rightarrow> pystr \<Rightarrow> int \<Rightarrow> real \<Rightarrow> error + bandwidth_result" where
  "acceptance_angle s theta_critical_dict target_mode step res =
     (case map_of theta_critical_dict target_mode of
        None \<Rightarrow> Inl KeyError
      | Some theta_c \<Rightarrow>
         (let theta_axis =
                map (\<lambda>k. deg2rad theta_c + of_int k * res * (1 / 1000)) (arange_steps step)
          in case sequence_err
                    (map (\<lambda>t. delta_n s target_mode (Some t) None None None None) theta_axis) of
               Inl e \<Rightarrow> Inl e
             | Inr delta_n_array \<Rightarrow>
                 if wavelength_out_um (cfg s) = 0 then Inl ZeroDivisionError
                 else
                  (let efficiency_angle = efficiency_curve s delta_n_array;
                       span = fwhm_span theta_axis efficiency_angle
                   in Inr \<lparr>scan_axis = theta_axis, efficiency = efficiency_angle,
                           acceptance = map_option (\<lambda>x. x * 1000) span,
                           secondary = map_option rad2deg span\<rparr>)))"

text \<open>
  The wavelength scan moves the second input with the first, at the configured ratio,
  and derives the output wavelength of every sample. The arrays are NumPy's, whose
  division does not raise; the ratio is a division of Python floats, which does.
\<close>

definition acceptance_wavelength ::
  "solver \<Rightarrow> (pystr \<times> real) list \<Rightarrow> pystr \<Rightarrow> int \<Rightarrow> real \<Rightarrow> error + bandwidth_result" where
  "acceptance_wavelength s theta_critical_dict target_mode step res =
     (let wavelength1_axis =
            map (\<lambda>k. wavelength1_nm (cfg s) + of_int k * res) (arange_steps step)
      in if process_type (cfg s) \<noteq> SHG \<and> wavelength1_nm (cfg s) = 0 then Inl ZeroDivisionError
         else
          (let wavelength_ratio = wavelength2_nm (cfg s) / wavelength1_nm (cfg s);
               samples =
                 (if process_type (cfg s) = SHG
                  then map (\<lambda>wl. (wl, wl, wl / 2)) wavelength1_axis
                  else map (\<lambda>wl1. (let wl2 = wavelength_ratio * wl1
                                    in (wl1, wl2, 1 / (1 / wl1 + 1 / wl2)))) wavelength1_axis)
           in case map_of theta_critical_dict target_mode of
                None \<Rightarrow> Inl KeyError
              | Some theta_c \<Rightarrow>
                 (let tem_theta = deg2rad theta_c
                  in case sequence_err
                            (map (\<lambda>(wl1, wl2, wl_out).
                                    delta_n s target_mode (Some tem_theta) (Some wl1) (Some wl2)
                                      (Some wl_out) None) samples) of
                       Inl e \<Rightarrow> Inl e
                     | Inr delta_n_array \<Rightarrow>
                         if wavelength_out_um (cfg s) = 0 then Inl ZeroDivisionError
                         else
                          (let efficiency_wavelength = efficiency_curve s delta_n_array;
                               span = fwhm_span wavelength1_axis efficiency_wavelength
                           in Inr \<lparr>scan_axis = wavelength1_axis,
                                   efficiency = efficiency_wavelength,
                                   acceptance = span,
                                   secondary = map_option
                                     (\<lambda>x. 299792458 / (wavelength1_nm (cfg s))\<^sup>2 * x) span\<rparr>))))"

definition acceptance_temperature ::
  "solver \<Rightarrow> (pystr \<times> real) list \<Rightarrow> pystr \<Rightarrow> int \<Rightarrow> real \<Rightarrow> error + bandwidth_result" where
  "acceptance_temperature s theta_critical_dict target_mode step res =
     (let temperature_axis =
            map (\<lambda>k. temperature (cfg s) + of_int k * res) (arange_steps step)
      in case map_of theta_critical_dict target_mode of
           None \<Rightarrow> Inl KeyError
         | Some theta_c \<Rightarrow>
            (let tem_theta = deg2rad theta_c
             in case sequence_err
                       (map (\<lambda>temp. delta_n s target_mode (Some tem_theta) None None None
                                       (Some temp)) temperature_axis) of
                  Inl e \<Rightarrow> Inl e
                | Inr delta_n_array \<Rightarrow>
                    if wavelength_out_um (cfg s) = 0 then Inl ZeroDivisionError
                    else
                     (let efficiency_temperature = efficiency_curve s delta_n_array
                      in Inr \<lparr>scan_axis = temperature_axis,
                              efficiency = efficiency_temperature,
                              acceptance = fwhm_span temperature_axis efficiency_temperature,
                              secondary = None\<rparr>)))"

subsection \<open>Temperature-phase-matching scanner\<close>

text \<open>
  \<^verbatim>\<open>np.arange(start, stop, step)\<close> on floats has \<open>\<lceil>(stop - start) / step\<rceil>\<close> samples
  \<open>start + i * step\<close>, none when that number is not positive; a zero step raises
  \<^verbatim>\<open>ZeroDivisionError\<close>.
\<close>

definition np_arange :: "real \<Rightarrow> real \<Rightarrow> real \<Rightarrow> real list" where
  "np_arange start stop step =
     map (\<lambda>i. start + real i * step) [0..<nat \<lceil>(stop - start) / step\<rceil>]"

record temperature_result =
  matching_temperatures :: "real list"
  temperature_axis :: "real list"
  phase_mismatch :: "real list"

text \<open>The loop over the adjacent pairs of samples: a pair whose product is not positive
  and whose values differ by more than \<open>10\<^sup>-\<^sup>1\<^sup>0\<close> adds the linearly interpolated root.\<close>

definition bracket :: "real list \<Rightarrow> nat \<Rightarrow> bool" where
  "bracket pm i \<longleftrightarrow>
     pm ! i * pm ! (i + 1) \<le> 0 \<and> 1 / 10000000000 < \<bar>pm ! (i + 1) - pm ! i\<bar>"

definition t_exact :: "real list \<Rightarrow> real list \<Rightarrow> nat \<Rightarrow> real" where
  "t_exact axis pm i =
     axis ! i - pm ! i * (axis ! (i + 1) - axis ! i) / (pm ! (i + 1) - pm ! i)"

definition find_matching :: "real list \<Rightarrow> real list \<Rightarrow> real list" where
  "find_matching axis pm =
     map (t_exact axis pm) (filter (bracket pm) [0..<length pm - 1])"

text \<open>
  The scanner evaluates the mismatch without an angle. After the loop it takes the
  minimum of the mismatch curve for its result, which raises \<^verbatim>\<open>ValueError\<close> on an
  empty grid.
\<close>

definition temperature_phase_matching ::
  "solver \<Rightarrow> pystr \<Rightarrow> real \<times> real \<Rightarrow> real \<Rightarrow> error + temperature_result" where
  "temperature_phase_matching s target_mode temperature_range temp_step =
     (let (temp_min, temp_max) = temperature_range
      in if temp_step = 0 then Inl ZeroDivisionError
         else
          (let axis = np_arange temp_min (temp_max + temp_step) temp_step
           in case sequence_err
                     (map (\<lambda>temp. delta_n s target_mode None None None None (Some temp)) axis) of
                Inl e \<Rightarrow> Inl e
              | Inr pm \<Rightarrow>
                  if pm = [] then Inl ValueError
                  else Inr \<lparr>matching_temperatures = find_matching axis pm,
                            temperature_axis = axis, phase_mismatch = pm\<rparr>))"

section \<open>Example inputs\<close>

text \<open>
  Concrete configurations, solvers and mode identifiers at which the theorems below are
  instantiated. The dispersion formulas of the examples are simple functions, chosen so
  that every value can be computed by rewriting.
\<close>

definition shg_config :: "(real \<Rightarrow> real \<Rightarrow> indices) \<Rightarrow> config" where
  "shg_config f = \<lparr>crystal_name = ''LBO'', process_type = SHG, wavelength1_nm = 1064,
     wavelength2_nm = 1064, wavelength_out_nm = 532, plane = XZ, temperature = 20,
     crystal_db = default_crystal_db, sellmeier = f\<rparr>"

definition shg_solver :: "(real \<Rightarrow> real \<Rightarrow> indices) \<Rightarrow> solver" where
  "shg_solver f = \<lparr>cfg = shg_config f, key_static = Key_n_y, key_cos = Key_n_z,
     key_sin = Key_n_x, weight1 = 1 / 2, weight2 = 1 / 2,
     mode_names = mode_names_of (shg_config f)\<rparr>"

definition mode_XXZ :: pystr where
  "mode_XXZ = [BoldX] @ asc '' (1064nm) + '' @ [BoldX] @ asc '' (1064nm) '' @ [Arrow]
     @ asc '' '' @ [BoldZ] @ asc '' (532nm) (Type I)''"

definition mode_OOE :: pystr where
  "mode_OOE = [BoldO] @ asc '' (1064nm) + '' @ [BoldO] @ asc '' (1064nm) '' @ [Arrow]
     @ asc '' '' @ [BoldE] @ asc '' (532nm) (Type I)''"

definition mode_EEO :: pystr where
  "mode_EEO = [BoldE] @ asc '' (1064nm) + '' @ [BoldE] @ asc '' (1064nm) '' @ [Arrow]
     @ asc '' '' @ [BoldO] @ asc '' (532nm) (Type I)''"

definition mode_OEE :: pystr where
  "mode_OEE = [BoldO] @ asc '' (1064nm) + '' @ [BoldE] @ asc '' (1064nm) '' @ [Arrow]
     @ asc '' '' @ [BoldE] @ asc '' (532nm) (Type II)''"

definition mode_OEO :: pystr where
  "mode_OEO = [BoldO] @ asc '' (1064nm) + '' @ [BoldE] @ asc '' (1064nm) '' @ [Arrow]
     @ asc '' '' @ [BoldO] @ asc '' (532nm) (Type II)''"

text \<open>Indices that do not depend on wavelength or temperature.\<close>

definition constant_formulas :: "real \<Rightarrow> real \<Rightarrow> real \<Rightarrow> real \<Rightarrow> real \<Rightarrow> indices" where
  "constant_formulas nx ny nz w dtemp = \<lparr>n_x = nx, n_y = ny, n_z = nz\<rparr>"

definition scan_axis_of :: "error + bandwidth_result \<Rightarrow> error + real list" where
  "scan_axis_of res = (case res of Inl e \<Rightarrow> Inl e | Inr r \<Rightarrow> Inr (scan_axis r))"

text \<open>Indices whose \<open>z\<close> component drifts linearly with the temperature and crosses the
  \<open>x\<close> component a quarter of a degree above the reference.\<close>

definition drift_formulas :: "real \<Rightarrow> real \<Rightarrow> real \<Rightarrow> indices" where
  "drift_formulas slope w dtemp = \<lparr>n_x = 2, n_y = 2, n_z = 2 + (dtemp - 1 / 4) * slope\<rparr>"

definition sfg_config :: "(real \<Rightarrow> real \<Rightarrow> indices) \<Rightarrow> config" where
  "sfg_config f = \<lparr>crystal_name = ''LBO'', process_type = SFG, wavelength1_nm = 1064,
     wavelength2_nm = 532, wavelength_out_nm = 1064 / 3, plane = XZ, temperature = 20,
     crystal_db = default_crystal_db, sellmeier = f\<rparr>"

definition sfg_solver :: "(real \<Rightarrow> real \<Rightarrow> indices) \<Rightarrow> solver" where
  "sfg_solver f = \<lparr>cfg = sfg_config f, key_static = Key_n_y, key_cos = Key_n_z,
     key_sin = Key_n_x, weight1 = 1 / 3, weight2 = 2 / 3,
     mode_names = mode_names_of (sfg_config f)\<rparr>"

definition mode_sfg_OEE_swapped :: pystr where
  "mode_sfg_OEE_swapped = [BoldO] @ asc '' (532nm) + '' @ [BoldE] @ asc '' (1064nm) '' @ [Arrow]
     @ asc '' '' @ [BoldE] @ asc '' (355nm) (Type II)''"

text \<open>Indices with dispersion: the \<open>z\<close> component grows with the wavelength (in
  micrometres).\<close>

definition dispersive_formulas :: "real \<Rightarrow> real \<Rightarrow> indices" where
  "dispersive_formulas w dtemp = \<lparr>n_x = 1, n_y = 1, n_z = 1 + w\<rparr>"

text \<open>The solver of the SHG example for the crystal KDP, of point group 4bar2m.\<close>

definition kdp_solver :: "(real \<Rightarrow> real \<Rightarrow> indices) \<Rightarrow> solver" where
  "kdp_solver f = (shg_solver f)\<lparr>cfg := (shg_config f)\<lparr>crystal_name := ''KDP''\<rparr>\<rparr>"

text \<open>An axis-locked mode of the SFG example, and an identifier whose input beams carry
  no polarisation letter.\<close>

definition mode_sfg_XXZ :: pystr where
  "mode_sfg_XXZ = [BoldX] @ asc '' (1064nm) + '' @ [BoldX] @ asc '' (532nm) '' @ [Arrow]
     @ asc '' '' @ [BoldZ] @ asc '' (355nm) (Type I)''"


text \<open>
  A root finder that stops at its initial guess. It reports convergence, \<open>ier = 1\<close>, when
  the equation vanishes at the guess, the case in which \<^verbatim>\<open>fsolve\<close> returns its guess
  unchanged, and no convergence, \<open>ier = 5\<close>, otherwise; an exception of the equation is
  passed on.
\<close>

definition guess_checking_finder :: root_finder where
  "guess_checking_finder f guess =
     (case f guess of Inl e \<Rightarrow> Inl e
      | Inr v \<Rightarrow> Inr (guess, if v = 0 then 1 else 5))"

section \<open>Properties\<close>

subsection \<open>Effective-index mixer\<close>

lemma ne_func_at_0: "n_cos \<noteq> 0 \<Longrightarrow> ne_func n_cos n_sin 0 = \<bar>n_sin\<bar>"
  by (simp add: ne_func_def)

lemma ne_func_at_pi_half: "n_sin \<noteq> 0 \<Longrightarrow> ne_func n_cos n_sin (pi / 2) = \<bar>n_cos\<bar>"
  by (simp add: ne_func_def)

text \<open>
  C2. The mixer that \<open>ne_func major minor\<close> returns is claimed to take the value
  \<open>major\<close> at angle 0 and \<open>minor\<close> at angle \<open>pi / 2\<close>. The code computes the opposite
  endpoints: for the principal indices \<open>major = 2\<close> and \<open>minor = 3\<close> the mixer is 3 at
  angle 0 and 2 at \<open>pi / 2\<close>.
\<close>

theorem ne_func_endpoints_swapped:
  "ne_func 2 3 0 = 3 \<and> ne_func 2 3 0 \<noteq> 2 \<and> ne_func 2 3 (pi / 2) = 2 \<and> ne_func 2 3 (pi / 2) \<noteq> 3"
  by (simp add: ne_func_def)

subsection \<open>Examples evaluated\<close>

lemmas str_defs = asc_def BoldX_def BoldY_def BoldZ_def BoldO_def BoldE_def Arrow_def
  is_digit_def is_space_def py_strip_def py_index_def input_pols_def output_pol_def
  is_xyz_notation_def float_of_digits_def

lemma init_ok: "Solver_init (shg_config f) = Inr (shg_solver f)"
  by (simp add: Solver_init_def shg_config_def shg_solver_def)

lemma split_XXZ: "py_split Arrow mode_XXZ = [[BoldX] @ asc '' (1064nm) + '' @ [BoldX] @ asc '' (1064nm) '', asc '' '' @ [BoldZ] @ asc '' (532nm) (Type I)'']"
  by (simp add: mode_XXZ_def asc_def Arrow_def BoldX_def BoldZ_def)

lemma terms_XXZ: "delta_n_terms (shg_solver f) mode_XXZ th None None None (Some T) =
   Inr \<lparr>w1 = 1 / 2, n1 = n_x (f (1064 / 1000) (T - 20)), w2 = 1 / 2, n2 = n_x (f (1064 / 1000) (T - 20)), n_out = n_z (f (532 / 1000) (T - 20))\<rparr>"
  apply (simp add: delta_n_terms_def in_effect_def split_XXZ Let_def)
  apply (simp add: is_xyz_notation_def mode_XXZ_def delta_n_xyz_def py_strip_def asc_def is_space_def BoldX_def BoldY_def BoldZ_def Arrow_def extract_xyz_pol_def xyz_key_def xyz_to_key_def get_indices_def shg_solver_def shg_config_def Let_def)
  done


lemma delta_n_XXZ:
  "delta_n (shg_solver (drift_formulas k)) mode_XXZ th None None None (Some T) = Inr (- (T - 20 - 1 / 4) * k)"
  by (simp add: delta_n_def terms_XXZ drift_formulas_def algebra_simps)

lemma arange_ex1: "np_arange 20 (43 / 2) (1 / 2) = [20, 41 / 2, 21]"
  by (simp add: np_arange_def upt_rec)

lemma arange_ex2: "np_arange 20 21 (1 / 2) = [20, 41 / 2]"
  by (simp add: np_arange_def upt_rec)

lemma tpm_example:
  "temperature_phase_matching (shg_solver (drift_formulas (1 / 1000))) mode_XXZ (20, 21) (1 / 2)
     = Inr \<lparr>matching_temperatures = [81 / 4], temperature_axis = [20, 41 / 2, 21],
            phase_mismatch = [1 / 4000, - 1 / 4000, - 3 / 4000]\<rparr>"
  by (simp add: temperature_phase_matching_def arange_ex1 delta_n_XXZ find_matching_def
        bracket_def t_exact_def upt_rec)


lemma delta_n_XXZ_any:
  "delta_n (shg_solver (drift_formulas k)) mode_XXZ th w1o w2o woo To
     = Inr (- ((case To of None \<Rightarrow> 20 | Some T \<Rightarrow> T) - 20 - 1 / 4) * k)"
  by (simp add: delta_n_def delta_n_terms_def in_effect_def delta_n_xyz_def mode_XXZ_def str_defs Let_def
        extract_xyz_pol_def xyz_key_def xyz_to_key_def get_indices_def shg_solver_def
        shg_config_def drift_formulas_def algebra_simps split: option.splits)

lemma arange_steps_2: "arange_steps 2 = [- 2, - 1, 0, 1]"
  by (simp add: arange_steps_def upto_rec1)

lemma wl_out_um_shg: "wavelength_out_um (cfg (shg_solver f)) = 532 / 1000"
  by (simp add: wavelength_out_um_def shg_solver_def shg_config_def)

lemma shg_solver_cfg:
  "temperature (cfg (shg_solver f)) = 20"
  "wavelength1_nm (cfg (shg_solver f)) = 1064"
  "wavelength2_nm (cfg (shg_solver f)) = 1064"
  "wavelength_out_nm (cfg (shg_solver f)) = 532"
  "process_type (cfg (shg_solver f)) = SHG"
  "plane (cfg (shg_solver f)) = XZ"
  by (simp_all add: shg_solver_def shg_config_def)

lemma fwhm_ones: "fwhm_span [a, b, c, e] [1, 1, 1, 1] = Some (e - a)"
  by (simp add: fwhm_span_def upt_rec)

lemma acc_temperature_example:
  "acceptance_temperature (shg_solver (drift_formulas 0)) [(mode_XXZ, 0)] mode_XXZ 2 1
     = Inr \<lparr>scan_axis = [18, 19, 20, 21], efficiency = [1, 1, 1, 1],
            acceptance = Some 3, secondary = None\<rparr>"
  by (simp add: acceptance_temperature_def arange_steps_2 delta_n_XXZ_any wl_out_um_shg
        efficiency_curve_def np_sinc_def fwhm_ones shg_solver_cfg)

lemma acc_wavelength_example:
  "acceptance_wavelength (shg_solver (drift_formulas 0)) [(mode_XXZ, 0)] mode_XXZ 2 1
     = Inr \<lparr>scan_axis = [1062, 1063, 1064, 1065], efficiency = [1, 1, 1, 1],
            acceptance = Some 3, secondary = Some (299792458 / 1064\<^sup>2 * 3)\<rparr>"
  by (simp add: acceptance_wavelength_def arange_steps_2 delta_n_XXZ_any wl_out_um_shg
        efficiency_curve_def np_sinc_def fwhm_ones shg_solver_cfg)

lemma acc_angle_example:
  "acceptance_angle (shg_solver (drift_formulas 0)) [(mode_XXZ, 0)] mode_XXZ 2 1
     = Inr \<lparr>scan_axis = [- 2 / 1000, - 1 / 1000, 0, 1 / 1000], efficiency = [1, 1, 1, 1],
            acceptance = Some 3, secondary = Some (rad2deg (3 / 1000))\<rparr>"
  by (simp add: acceptance_angle_def arange_steps_2 delta_n_XXZ_any wl_out_um_shg deg2rad_def
        efficiency_curve_def np_sinc_def fwhm_ones shg_solver_cfg)

lemma shg_mode_names:
  "mode_names_of (shg_config f) = [mode_OOE, mode_EEO, mode_OEE, mode_OEO]"
  by (simp add: mode_names_of_def shg_config_def mode_name_of_def nm_label_def fmt0_def
        round_half_even_def mode_OOE_def mode_EEO_def mode_OEE_def mode_OEO_def asc_def)

lemma shg_mode_keys:
  "dict_keys (mode_names (shg_solver f)) = [mode_OOE, mode_EEO, mode_OEE, mode_OEO]"
  by (simp add: shg_solver_def shg_mode_names dict_keys_def mode_OOE_def mode_EEO_def
        mode_OEE_def mode_OEO_def asc_def BoldO_def BoldE_def)

lemma delta_n_OOE_const:
  "delta_n (shg_solver (constant_formulas nx ny nz)) mode_OOE (Some th) None None None None
     = Inr (ny - ne_func nz nx th)"
  by (simp add: delta_n_def delta_n_terms_def in_effect_def delta_n_oe_def mode_OOE_def str_defs Let_def
       beam_index_def get_indices_def shg_solver_def shg_config_def constant_formulas_def)

lemma delta_n_EEO_const:
  "delta_n (shg_solver (constant_formulas nx ny nz)) mode_EEO (Some th) None None None None
     = Inr (ne_func nz nx th - ny)"
  by (simp add: delta_n_def delta_n_terms_def in_effect_def delta_n_oe_def mode_EEO_def str_defs Let_def
       beam_index_def get_indices_def shg_solver_def shg_config_def constant_formulas_def)

lemma delta_n_OEE_const:
  "delta_n (shg_solver (constant_formulas nx ny nz)) mode_OEE (Some th) None None None None
     = Inr (1 / 2 * ny + 1 / 2 * ne_func nz nx th - ne_func nz nx th)"
  by (simp add: delta_n_def delta_n_terms_def in_effect_def delta_n_oe_def mode_OEE_def str_defs Let_def
       beam_index_def get_indices_def shg_solver_def shg_config_def constant_formulas_def)

lemma delta_n_OEO_const:
  "delta_n (shg_solver (constant_formulas nx ny nz)) mode_OEO (Some th) None None None None
     = Inr (1 / 2 * ny + 1 / 2 * ne_func nz nx th - ny)"
  by (simp add: delta_n_def delta_n_terms_def in_effect_def delta_n_oe_def mode_OEO_def str_defs Let_def
       beam_index_def get_indices_def shg_solver_def shg_config_def constant_formulas_def)

lemmas delta_n_const = delta_n_OOE_const delta_n_EEO_const delta_n_OEE_const delta_n_OEO_const

lemma mode_types:
  "get_mode_type mode_OOE = Some ''OOE''"
  "get_mode_type mode_EEO = Some ''EEO''"
  "get_mode_type mode_OEE = Some ''OEE''"
  "get_mode_type mode_OEO = Some ''OEO''"
  "get_mode_type mode_XXZ = None"
  by (simp_all add: get_mode_type_def mode_OOE_def mode_EEO_def mode_OEE_def mode_OEO_def
        mode_XXZ_def str_defs is_pol_def pol_letter_def Let_def)

lemma shg_crystal:
  "crystal_db (cfg (shg_solver f)) (crystal_name (cfg (shg_solver f)))
     = Some \<lparr>group = ''mm2'',
         d = [''d31'' \<mapsto> 1.05, ''d32'' \<mapsto> 0.85, ''d33'' \<mapsto> 0.05, ''d15'' \<mapsto> 1.05,
              ''d24'' \<mapsto> 0.85]\<rparr>"
  by (simp add: shg_solver_def shg_config_def default_crystal_db_def)

lemma sfg_config_ok:
  "SimulationConfig ''LBO'' 1064 20 XZ SFG (Some 532) f = Inr (sfg_config f)"
  by (simp add: SimulationConfig_def sfg_config_def Let_def)

lemma sfg_init_ok: "Solver_init (sfg_config f) = Inr (sfg_solver f)"
  by (simp add: Solver_init_def sfg_config_def sfg_solver_def)

lemma sfg_mode_4: "mode_names (sfg_solver f) ! 3 = mode_sfg_OEE_swapped"
  by (simp add: sfg_solver_def mode_names_of_def sfg_config_def mode_name_of_def nm_label_def
        fmt0_def round_half_even_def mode_sfg_OEE_swapped_def asc_def)

lemma deg2rad_45: "deg2rad 45 = pi / 4"
  by (simp add: deg2rad_def)

lemma walkoff_swapped:
  "walkoff_angle (sfg_solver dispersive_formulas) [(mode_sfg_OEE_swapped, Some 45)] 0
     = Inr [(mode_sfg_OEE_swapped,
         Walkoff [(BoldO, 0, 0),
                  (BoldE, rad2deg (pi / 4 - arctan ((1 + 532 / 1000)\<^sup>2)),
                          (pi / 4 - arctan ((1 + 532 / 1000)\<^sup>2)) * 1000),
                  (BoldE, rad2deg (pi / 4 - arctan ((1 + 1064 / 3 / 1000)\<^sup>2)),
                          (pi / 4 - arctan ((1 + 1064 / 3 / 1000)\<^sup>2)) * 1000)])]"
  by (simp add: walkoff_one_def deg2rad_45 tan_45 mode_sfg_OEE_swapped_def str_defs Let_def
        calc_walkoff_def get_indices_def sfg_solver_def sfg_config_def dispersive_formulas_def)

lemma kdp_crystal:
  "crystal_db (cfg (kdp_solver f)) (crystal_name (cfg (kdp_solver f)))
     = Some \<lparr>group = ''4bar2m'', d = [''d36'' \<mapsto> 0.39, ''d14'' \<mapsto> 0.39]\<rparr>"
  by (simp add: kdp_solver_def shg_solver_def shg_config_def default_crystal_db_def)

lemma kdp_plane: "plane (cfg (kdp_solver f)) = XZ"
  by (simp add: kdp_solver_def shg_solver_def shg_config_def)

lemma deg2rad_90: "deg2rad 90 = pi / 2"
  by (simp add: deg2rad_def)

lemma sin_2_deg2rad_45: "sin (2 * deg2rad 45) = 1"
  by (simp add: deg2rad_def)

lemma d_eff_kdp_example:
  "d_eff (kdp_solver (constant_formulas 2 2 3))
       [(mode_OOE, Some 90), (mode_OEE, None), (mode_XXZ, Some 90)] (Some 45)
     = Inr [(mode_OOE, Some (39 / 100)), (mode_OEE, None), (mode_XXZ, Some 0)]"
  by (simp add: d_eff_def kdp_crystal d_eff_one_def mode_types kdp_plane d_value_of_def
        d_get_def deg2rad_90 sin_2_deg2rad_45)

subsection \<open>Temperature-phase-matching scanner\<close>

lemma interp_between:
  fixes p0 p1 a b :: real
  assumes "p0 * p1 \<le> 0" "p1 \<noteq> p0"
  shows "min a b \<le> a - p0 * (b - a) / (p1 - p0) \<and> a - p0 * (b - a) / (p1 - p0) \<le> max a b"
proof -
  define l where "l = - p0 / (p1 - p0)"
  have l01: "0 \<le> l \<and> l \<le> 1"
  proof -
    consider "p0 = 0" | "p0 < 0" | "0 < p0" by linarith
    then show ?thesis
    proof cases
      case 1 then show ?thesis by (simp add: l_def)
    next
      case 2
      then have "0 \<le> p1" using assms(1) by (simp add: mult_le_0_iff)
      then have "0 < p1 - p0" using 2 by simp
      then show ?thesis unfolding l_def using 2 \<open>0 \<le> p1\<close> by (simp add: field_simps)
    next
      case 3
      then have "p1 \<le> 0" using assms(1) by (simp add: mult_le_0_iff)
      then have "p1 - p0 < 0" using 3 by simp
      then show ?thesis unfolding l_def using 3 \<open>p1 \<le> 0\<close> by (simp add: field_simps)
    qed
  qed
  have eq: "a - p0 * (b - a) / (p1 - p0) = a + l * (b - a)"
    by (simp add: l_def field_simps)
  have lo: "min a b \<le> a + l * (b - a)"
  proof (cases "a \<le> b")
    case True
    then have "0 \<le> l * (b - a)" using l01 by simp
    then show ?thesis using True by (simp add: min_def)
  next
    case False
    then have "0 \<le> (1 - l) * (a - b)" using l01 by simp
    then have "b \<le> a + l * (b - a)" by (simp add: algebra_simps)
    then show ?thesis using False by (simp add: min_def)
  qed
  have hi: "a + l * (b - a) \<le> max a b"
  proof (cases "a \<le> b")
    case True
    then have "0 \<le> (1 - l) * (b - a)" using l01 by simp
    then have "a + l * (b - a) \<le> b" by (simp add: algebra_simps)
    then show ?thesis using True by (simp add: max_def)
  next
    case False
    then have "l * (b - a) \<le> 0" using l01 by (simp add: mult_nonneg_nonpos)
    then show ?thesis using False by (simp add: max_def)
  qed
  show ?thesis using lo hi eq by simp
qed

lemma sequence_err_Inr:
  "sequence_err xs = Inr vs \<Longrightarrow> length vs = length xs \<and> (\<forall>i<length xs. xs ! i = Inr (vs ! i))"
proof (induction xs arbitrary: vs)
  case Nil then show ?case by simp
next
  case (Cons x xs)
  from Cons.prems obtain v vs' where x: "x = Inr v" and r: "sequence_err xs = Inr vs'" and vs: "vs = v # vs'"
    by (auto split: sum.splits)
  from Cons.IH[OF r] have ih: "length vs' = length xs" "\<forall>i<length xs. xs ! i = Inr (vs' ! i)" by simp_all
  show ?case
  proof (intro conjI allI impI)
    show "length vs = length (x # xs)" using ih vs by simp
  next
    fix i assume "i < length (x # xs)"
    then show "(x # xs) ! i = Inr (vs ! i)" using ih x vs by (cases i) simp_all
  qed
qed

lemma np_arange_nth: "i < length (np_arange a b st) \<Longrightarrow> np_arange a b st ! i = a + real i * st"
  by (simp add: np_arange_def)

lemma np_arange_bounds_pos:
  assumes "0 < st" "i < length (np_arange a b st)"
  shows "a \<le> np_arange a b st ! i \<and> np_arange a b st ! i < b"
proof -
  have i: "i < nat \<lceil>(b - a) / st\<rceil>" using assms(2) by (simp add: np_arange_def)
  then have "int i < \<lceil>(b - a) / st\<rceil>" by (simp add: zless_nat_eq_int_zless)
  then have "real i < (b - a) / st" by (simp add: less_ceiling_iff)
  then have "real i * st < b - a" using assms(1) by (simp add: field_simps)
  moreover have "0 \<le> real i * st" using assms(1) by simp
  ultimately show ?thesis using np_arange_nth[OF assms(2)] by simp
qed

lemma np_arange_bounds_neg:
  assumes "st < 0" "i < length (np_arange a b st)"
  shows "b < np_arange a b st ! i \<and> np_arange a b st ! i \<le> a"
proof -
  have i: "i < nat \<lceil>(b - a) / st\<rceil>" using assms(2) by (simp add: np_arange_def)
  then have "int i < \<lceil>(b - a) / st\<rceil>" by (simp add: zless_nat_eq_int_zless)
  then have "real i < (b - a) / st" by (simp add: less_ceiling_iff)
  then have "real i * st > b - a" using assms(1) by (simp add: field_simps)
  moreover have "real i * st \<le> 0" using assms(1) by (simp add: mult_nonneg_nonpos)
  ultimately show ?thesis using np_arange_nth[OF assms(2)] by simp
qed


lemma tpm_Inr:
  assumes "temperature_phase_matching s m (tmin, tmax) st = Inr r"
  shows "st \<noteq> 0"
    and "temperature_axis r = np_arange tmin (tmax + st) st"
    and "length (phase_mismatch r) = length (temperature_axis r)"
    and "phase_mismatch r \<noteq> []"
    and "\<forall>i<length (temperature_axis r).
           delta_n s m None None None None (Some (temperature_axis r ! i)) = Inr (phase_mismatch r ! i)"
    and "matching_temperatures r = find_matching (temperature_axis r) (phase_mismatch r)"
proof -
  show st: "st \<noteq> 0"
    using assms by (auto simp: temperature_phase_matching_def)
  define axis where "axis = np_arange tmin (tmax + st) st"
  from assms st obtain pm where
    seq: "sequence_err (map (\<lambda>temp. delta_n s m None None None None (Some temp)) axis) = Inr pm"
    and ne: "pm \<noteq> []"
    and r: "r = \<lparr>matching_temperatures = find_matching axis pm, temperature_axis = axis,
                 phase_mismatch = pm\<rparr>"
    by (auto simp: temperature_phase_matching_def axis_def Let_def split: sum.splits if_splits)
  from sequence_err_Inr[OF seq]
  have len: "length pm = length axis"
    and nth: "\<forall>i<length axis. delta_n s m None None None None (Some (axis ! i)) = Inr (pm ! i)"
    by simp_all
  show "temperature_axis r = np_arange tmin (tmax + st) st" using r axis_def by simp
  show "length (phase_mismatch r) = length (temperature_axis r)" using r len by simp
  show "phase_mismatch r \<noteq> []" using r ne by simp
  show "\<forall>i<length (temperature_axis r).
           delta_n s m None None None None (Some (temperature_axis r ! i)) = Inr (phase_mismatch r ! i)"
    using r nth by simp
  show "matching_temperatures r = find_matching (temperature_axis r) (phase_mismatch r)"
    using r by simp
qed

lemma find_matching_set:
  "set (find_matching axis pm) = t_exact axis pm ` {i. i + 1 < length pm \<and> bracket pm i}"
  by (auto simp: find_matching_def)

lemma find_matching_length:
  "length (find_matching axis pm) = card {i. i + 1 < length pm \<and> bracket pm i}"
proof -
  have "length (find_matching axis pm) = length (filter (bracket pm) [0..<length pm - 1])"
    by (simp add: find_matching_def)
  also have "\<dots> = card (set (filter (bracket pm) [0..<length pm - 1]))"
    using distinct_card[of "filter (bracket pm) [0..<length pm - 1]"] by simp
  also have "set (filter (bracket pm) [0..<length pm - 1]) = {i. i + 1 < length pm \<and> bracket pm i}"
    by auto
  finally show ?thesis .
qed

lemma find_matching_positive:
  assumes "\<forall>i<length pm. 0 < pm ! i"
  shows "find_matching axis pm = []"
proof -
  have "\<not> bracket pm i" if "i + 1 < length pm" for i
  proof -
    have "0 < pm ! i" "0 < pm ! (i + 1)" using assms that by simp_all
    then have "0 < pm ! i * pm ! (i + 1)" by simp
    then show ?thesis by (simp add: bracket_def)
  qed
  then have "filter (bracket pm) [0..<length pm - 1] = []"
    by (auto simp: filter_empty_conv)
  then show ?thesis by (simp add: find_matching_def)
qed


text \<open>
  C8, as stated: every adjacent pair of samples whose mismatch changes sign yields a
  reported temperature. It fails on a nearly flat curve: with the grid 20, 20.5 and the
  mismatch values \<open>4 * 10\<^sup>-\<^sup>1\<^sup>1\<close> and \<open>- 4 * 10\<^sup>-\<^sup>1\<^sup>1\<close> the sign changes, the two values differ by less
  than the \<open>10\<^sup>-\<^sup>1\<^sup>0\<close> that the loop requires before it interpolates, and the list of
  matching temperatures is empty.
\<close>

theorem scanner_skips_flat_sign_change:
  "temperature_phase_matching (shg_solver (drift_formulas (16 / 10 ^ 11))) mode_XXZ
       (20, 41 / 2) (1 / 2)
     = Inr \<lparr>matching_temperatures = [], temperature_axis = [20, 41 / 2],
            phase_mismatch = [1 / 25000000000, - 1 / 25000000000]\<rparr>"
  by (simp add: temperature_phase_matching_def arange_ex2 delta_n_XXZ find_matching_def
        bracket_def t_exact_def upt_rec)

text \<open>
  C8, amended. When the scanner returns, its result holds the grid
  \<open>np.arange(temp_min, temp_max + temp_step, temp_step)\<close> and the mismatch of the mode at
  every grid sample; the matching temperatures are, in grid order, the linear
  interpolations of exactly those adjacent pairs whose product of mismatch values is not
  positive and whose values differ by more than \<open>10\<^sup>-\<^sup>1\<^sup>0\<close>, one per pair; a sample whose
  mismatch is exactly zero is reported at its own temperature when its right neighbour
  is further than \<open>10\<^sup>-\<^sup>1\<^sup>0\<close> from zero; a mismatch that is positive on the whole grid
  gives the empty list.
\<close>

theorem scanner_reports_brackets:
  assumes "temperature_phase_matching s m (tmin, tmax) st = Inr r"
  shows "temperature_axis r = np_arange tmin (tmax + st) st
    \<and> length (phase_mismatch r) = length (temperature_axis r)
    \<and> (\<forall>i<length (temperature_axis r).
          delta_n s m None None None None (Some (temperature_axis r ! i))
            = Inr (phase_mismatch r ! i))
    \<and> matching_temperatures r
        = map (\<lambda>i. temperature_axis r ! i
                    - phase_mismatch r ! i * (temperature_axis r ! (i + 1) - temperature_axis r ! i)
                      / (phase_mismatch r ! (i + 1) - phase_mismatch r ! i))
            (filter (\<lambda>i. phase_mismatch r ! i * phase_mismatch r ! (i + 1) \<le> 0
                          \<and> 1 / 10000000000 < \<bar>phase_mismatch r ! (i + 1) - phase_mismatch r ! i\<bar>)
               [0..<length (phase_mismatch r) - 1])
    \<and> length (matching_temperatures r)
        = card {i. i + 1 < length (phase_mismatch r)
                   \<and> phase_mismatch r ! i * phase_mismatch r ! (i + 1) \<le> 0
                   \<and> 1 / 10000000000 < \<bar>phase_mismatch r ! (i + 1) - phase_mismatch r ! i\<bar>}
    \<and> (\<forall>i. i + 1 < length (phase_mismatch r) \<and> phase_mismatch r ! i = 0
            \<and> 1 / 10000000000 < \<bar>phase_mismatch r ! (i + 1)\<bar>
          \<longrightarrow> temperature_axis r ! i \<in> set (matching_temperatures r))
    \<and> ((\<forall>i<length (phase_mismatch r). 0 < phase_mismatch r ! i)
          \<longrightarrow> matching_temperatures r = [])"
proof -
  note f = tpm_Inr[OF assms]
  have br: "bracket (phase_mismatch r) = (\<lambda>i. phase_mismatch r ! i * phase_mismatch r ! (i + 1) \<le> 0
      \<and> 1 / 10000000000 < \<bar>phase_mismatch r ! (i + 1) - phase_mismatch r ! i\<bar>)"
    by (rule ext) (simp add: bracket_def)
  have te: "t_exact (temperature_axis r) (phase_mismatch r) = (\<lambda>i. temperature_axis r ! i
                    - phase_mismatch r ! i * (temperature_axis r ! (i + 1) - temperature_axis r ! i)
                      / (phase_mismatch r ! (i + 1) - phase_mismatch r ! i))"
    by (rule ext) (simp add: t_exact_def)
  have c4: "matching_temperatures r
        = map (\<lambda>i. temperature_axis r ! i
                    - phase_mismatch r ! i * (temperature_axis r ! (i + 1) - temperature_axis r ! i)
                      / (phase_mismatch r ! (i + 1) - phase_mismatch r ! i))
            (filter (\<lambda>i. phase_mismatch r ! i * phase_mismatch r ! (i + 1) \<le> 0
                          \<and> 1 / 10000000000 < \<bar>phase_mismatch r ! (i + 1) - phase_mismatch r ! i\<bar>)
               [0..<length (phase_mismatch r) - 1])"
    using f(6) by (simp add: find_matching_def br te)
  have c5: "length (matching_temperatures r)
        = card {i. i + 1 < length (phase_mismatch r)
                   \<and> phase_mismatch r ! i * phase_mismatch r ! (i + 1) \<le> 0
                   \<and> 1 / 10000000000 < \<bar>phase_mismatch r ! (i + 1) - phase_mismatch r ! i\<bar>}"
    using f(6) find_matching_length[of "temperature_axis r" "phase_mismatch r"] by (simp add: br)
  have c6: "temperature_axis r ! i \<in> set (matching_temperatures r)"
    if "i + 1 < length (phase_mismatch r)" "phase_mismatch r ! i = 0"
       "1 / 10000000000 < \<bar>phase_mismatch r ! (i + 1)\<bar>" for i
  proof -
    have "bracket (phase_mismatch r) i" using that by (simp add: bracket_def)
    moreover have "t_exact (temperature_axis r) (phase_mismatch r) i = temperature_axis r ! i"
      using that by (simp add: t_exact_def)
    ultimately show ?thesis
      using that(1) f(6) find_matching_set[of "temperature_axis r" "phase_mismatch r"]
      by (metis (mono_tags, lifting) image_eqI mem_Collect_eq)
  qed
  have c7: "matching_temperatures r = []" if "\<forall>i<length (phase_mismatch r). 0 < phase_mismatch r ! i"
    using f(6) find_matching_positive[OF that] by simp
  show ?thesis using f(2) f(3) f(5) c4 c5 c6 c7 by blast
qed


theorem scanner_reports_brackets_witness:
  "temperature_phase_matching (shg_solver (drift_formulas (1 / 1000))) mode_XXZ (20, 21) (1 / 2)
     = Inr \<lparr>matching_temperatures = [81 / 4], temperature_axis = [20, 41 / 2, 21],
            phase_mismatch = [1 / 4000, - 1 / 4000, - 3 / 4000]\<rparr>
   \<and> np_arange 20 (21 + 1 / 2) (1 / 2) = [20, 41 / 2, 21]
   \<and> card {i. i + 1 < length [1 / 4000, - 1 / 4000, - 3 / 4000 :: real]
              \<and> [1 / 4000, - 1 / 4000, - 3 / 4000 :: real] ! i
                  * [1 / 4000, - 1 / 4000, - 3 / 4000] ! (i + 1) \<le> 0
              \<and> 1 / 10000000000
                  < \<bar>[1 / 4000, - 1 / 4000, - 3 / 4000 :: real] ! (i + 1)
                      - [1 / 4000, - 1 / 4000, - 3 / 4000] ! i\<bar>} = 1"
proof -
  note t = scanner_reports_brackets [OF tpm_example]
  have a: "np_arange 20 (21 + 1 / 2) (1 / 2) = [20, 41 / 2, 21 :: real]"
    using t by simp
  have c: "card {i. i + 1 < length [1 / 4000, - 1 / 4000, - 3 / 4000 :: real]
              \<and> [1 / 4000, - 1 / 4000, - 3 / 4000 :: real] ! i
                  * [1 / 4000, - 1 / 4000, - 3 / 4000] ! (i + 1) \<le> 0
              \<and> 1 / 10000000000
                  < \<bar>[1 / 4000, - 1 / 4000, - 3 / 4000 :: real] ! (i + 1)
                      - [1 / 4000, - 1 / 4000, - 3 / 4000] ! i\<bar>} = 1"
    using t by simp
  show ?thesis using tpm_example a c by blast
qed

text \<open>
  C10. Every matching temperature that the scanner returns lies between the two
  temperatures of an adjacent grid pair, one grid step apart, whose mismatch values
  have a product that is not positive; hence it lies between \<open>temp_min\<close> and
  \<open>temp_max + temp_step\<close>, the scan range extended by one grid step.
\<close>

theorem matching_temperature_in_bracket:
  assumes "temperature_phase_matching s m (tmin, tmax) st = Inr r"
    and "t \<in> set (matching_temperatures r)"
  shows "(\<exists>i. i + 1 < length (temperature_axis r)
            \<and> temperature_axis r ! (i + 1) = temperature_axis r ! i + st
            \<and> phase_mismatch r ! i * phase_mismatch r ! (i + 1) \<le> 0
            \<and> min (temperature_axis r ! i) (temperature_axis r ! (i + 1)) \<le> t
            \<and> t \<le> max (temperature_axis r ! i) (temperature_axis r ! (i + 1)))
    \<and> min tmin (tmax + st) \<le> t \<and> t \<le> max tmin (tmax + st)"
proof -
  note f = tpm_Inr[OF assms(1)]
  let ?ax = "temperature_axis r" and ?pm = "phase_mismatch r"
  from assms(2) f(6) obtain i where i: "i + 1 < length ?pm" and b: "bracket ?pm i"
    and t: "t = t_exact ?ax ?pm i"
    using find_matching_set[of ?ax ?pm] by auto
  have ilen: "i < length ?ax" "i + 1 < length ?ax" using i f(3) by simp_all
  have prod: "?pm ! i * ?pm ! (i + 1) \<le> 0" and ne: "?pm ! (i + 1) \<noteq> ?pm ! i"
    using b by (auto simp: bracket_def)
  have bt: "min (?ax ! i) (?ax ! (i + 1)) \<le> t \<and> t \<le> max (?ax ! i) (?ax ! (i + 1))"
    using interp_between[OF prod ne, of "?ax ! i" "?ax ! (i + 1)"] t by (simp add: t_exact_def)
  have a0: "?ax ! i = tmin + real i * st" and a1: "?ax ! (i + 1) = tmin + real (i + 1) * st"
    using ilen f(2) np_arange_nth[of _ tmin "tmax + st" st] by simp_all
  have step: "?ax ! (i + 1) = ?ax ! i + st" using a0 a1 by (simp add: algebra_simps)
  consider "0 < st" | "st < 0" using f(1) by linarith
  then have rng: "min tmin (tmax + st) \<le> t \<and> t \<le> max tmin (tmax + st)"
  proof cases
    case 1
    have "tmin \<le> ?ax ! i" "?ax ! (i + 1) < tmax + st"
      using np_arange_bounds_pos[OF 1, of _ tmin "tmax + st"] ilen f(2) by simp_all
    then show ?thesis using bt step 1 by (simp add: min_def max_def split: if_splits)
  next
    case 2
    have "?ax ! i \<le> tmin" "tmax + st < ?ax ! (i + 1)"
      using np_arange_bounds_neg[OF 2, of _ tmin "tmax + st"] ilen f(2) by simp_all
    then show ?thesis using bt step 2 by (simp add: min_def max_def split: if_splits)
  qed
  show ?thesis using ilen step prod bt rng by blast
qed

theorem matching_temperature_in_bracket_witness:
  "temperature_phase_matching (shg_solver (drift_formulas (1 / 1000))) mode_XXZ (20, 21) (1 / 2)
     = Inr \<lparr>matching_temperatures = [81 / 4], temperature_axis = [20, 41 / 2, 21],
            phase_mismatch = [1 / 4000, - 1 / 4000, - 3 / 4000]\<rparr>
   \<and> (81 / 4 :: real) \<in> set [81 / 4]
   \<and> min 20 (21 + 1 / 2) \<le> (81 / 4 :: real) \<and> (81 / 4 :: real) \<le> max 20 (21 + 1 / 2)"
proof -
  have m: "(81 / 4 :: real) \<in> set (matching_temperatures
      \<lparr>matching_temperatures = [81 / 4], temperature_axis = [20, 41 / 2, 21],
       phase_mismatch = [1 / 4000, - 1 / 4000, - 3 / 4000]\<rparr>)"
    by simp
  from matching_temperature_in_bracket [OF tpm_example m]
  have "min 20 (21 + 1 / 2) \<le> (81 / 4 :: real) \<and> (81 / 4 :: real) \<le> max 20 (21 + 1 / 2)"
    by blast
  then show ?thesis using tpm_example by simp
qed

subsection \<open>Acceptance-bandwidth analyzer\<close>


lemma arange_steps_length: "length (arange_steps step) = nat (2 * step)"
  by (simp add: arange_steps_def)

lemma arange_steps_nth: "i < nat (2 * step) \<Longrightarrow> arange_steps step ! i = int i - step"
  by (simp add: arange_steps_def)




lemma acceptance_angle_Inr:
  assumes "acceptance_angle s dict m step res = Inr r"
  obtains theta_c dn where
    "map_of dict m = Some theta_c"
    "scan_axis r = map (\<lambda>k. deg2rad theta_c + of_int k * res * (1 / 1000)) (arange_steps step)"
    "sequence_err (map (\<lambda>t. delta_n s m (Some t) None None None None) (scan_axis r)) = Inr dn"
    "wavelength_out_um (cfg s) \<noteq> 0"
    "efficiency r = efficiency_curve s dn"
  using assms
  by (auto simp: acceptance_angle_def Let_def split: option.splits sum.splits if_splits)

lemma acceptance_temperature_Inr:
  assumes "acceptance_temperature s dict m step res = Inr r"
  obtains theta_c dn where
    "map_of dict m = Some theta_c"
    "scan_axis r = map (\<lambda>k. temperature (cfg s) + of_int k * res) (arange_steps step)"
    "sequence_err (map (\<lambda>temp. delta_n s m (Some (deg2rad theta_c)) None None None (Some temp))
        (scan_axis r)) = Inr dn"
    "wavelength_out_um (cfg s) \<noteq> 0"
    "efficiency r = efficiency_curve s dn"
  using assms
  by (auto simp: acceptance_temperature_def Let_def split: option.splits sum.splits if_splits)

lemma acceptance_wavelength_Inr:
  assumes "acceptance_wavelength s dict m step res = Inr r"
  obtains theta_c dn where
    "map_of dict m = Some theta_c"
    "scan_axis r = map (\<lambda>k. wavelength1_nm (cfg s) + of_int k * res) (arange_steps step)"
    "process_type (cfg s) = SHG \<or> wavelength1_nm (cfg s) \<noteq> 0"
    "length dn = length (scan_axis r)"
    "\<forall>i<length (scan_axis r).
        delta_n s m (Some (deg2rad theta_c)) (Some (scan_axis r ! i))
          (Some (if process_type (cfg s) = SHG then scan_axis r ! i
                 else wavelength2_nm (cfg s) / wavelength1_nm (cfg s) * scan_axis r ! i))
          (Some (if process_type (cfg s) = SHG then scan_axis r ! i / 2
                 else 1 / (1 / scan_axis r ! i
                      + 1 / (wavelength2_nm (cfg s) / wavelength1_nm (cfg s) * scan_axis r ! i))))
          None = Inr (dn ! i)"
    "wavelength_out_um (cfg s) \<noteq> 0"
    "efficiency r = efficiency_curve s dn"
proof -
  let ?ax = "map (\<lambda>k. wavelength1_nm (cfg s) + of_int k * res) (arange_steps step)"
  define samples where "samples =
        (if process_type (cfg s) = SHG then map (\<lambda>wl. (wl, wl, wl / 2)) ?ax
         else map (\<lambda>wl1. (wl1, wavelength2_nm (cfg s) / wavelength1_nm (cfg s) * wl1,
                 1 / (1 / wl1 + 1 / (wavelength2_nm (cfg s) / wavelength1_nm (cfg s) * wl1)))) ?ax)"
  have unf: "acceptance_wavelength s dict m step res =
     (if process_type (cfg s) \<noteq> SHG \<and> wavelength1_nm (cfg s) = 0 then Inl ZeroDivisionError
      else case map_of dict m of None \<Rightarrow> Inl KeyError
        | Some theta_c \<Rightarrow>
          (case sequence_err (map (\<lambda>(wl1, wl2, wl_out).
                   delta_n s m (Some (deg2rad theta_c)) (Some wl1) (Some wl2) (Some wl_out) None)
                 samples) of
             Inl e \<Rightarrow> Inl e
           | Inr dn \<Rightarrow> if wavelength_out_um (cfg s) = 0 then Inl ZeroDivisionError
               else Inr \<lparr>scan_axis = ?ax, efficiency = efficiency_curve s dn,
                      acceptance = fwhm_span ?ax (efficiency_curve s dn),
                      secondary = map_option (\<lambda>x. 299792458 / (wavelength1_nm (cfg s))\<^sup>2 * x)
                         (fwhm_span ?ax (efficiency_curve s dn))\<rparr>))"
    unfolding acceptance_wavelength_def Let_def samples_def ..
  from assms[unfolded unf] obtain theta_c dn where tc: "map_of dict m = Some theta_c"
    and nz: "process_type (cfg s) = SHG \<or> wavelength1_nm (cfg s) \<noteq> 0"
    and seq: "sequence_err (map (\<lambda>(wl1, wl2, wl_out).
                   delta_n s m (Some (deg2rad theta_c)) (Some wl1) (Some wl2) (Some wl_out) None)
                 samples) = Inr dn"
    and w: "wavelength_out_um (cfg s) \<noteq> 0"
    and r1: "scan_axis r = ?ax" and r2: "efficiency r = efficiency_curve s dn"
    by (auto split: option.splits sum.splits if_splits)
  have ls: "length samples = length ?ax" by (simp add: samples_def)
  from sequence_err_Inr[OF seq] have len: "length dn = length ?ax"
    and nth: "\<forall>i<length ?ax. (map (\<lambda>(wl1, wl2, wl_out).
                   delta_n s m (Some (deg2rad theta_c)) (Some wl1) (Some wl2) (Some wl_out) None)
                 samples) ! i = Inr (dn ! i)"
    using ls by simp_all
  have "delta_n s m (Some (deg2rad theta_c)) (Some (?ax ! i))
          (Some (if process_type (cfg s) = SHG then ?ax ! i
                 else wavelength2_nm (cfg s) / wavelength1_nm (cfg s) * ?ax ! i))
          (Some (if process_type (cfg s) = SHG then ?ax ! i / 2
                 else 1 / (1 / ?ax ! i
                      + 1 / (wavelength2_nm (cfg s) / wavelength1_nm (cfg s) * ?ax ! i))))
          None = Inr (dn ! i)" if "i < length ?ax" for i
  proof -
    have "(map (\<lambda>(wl1, wl2, wl_out).
                   delta_n s m (Some (deg2rad theta_c)) (Some wl1) (Some wl2) (Some wl_out) None)
                 samples) ! i = Inr (dn ! i)" using nth that by blast
    moreover have "i < length samples" using that ls by simp
    moreover have "samples ! i = (?ax ! i,
         (if process_type (cfg s) = SHG then ?ax ! i
                 else wavelength2_nm (cfg s) / wavelength1_nm (cfg s) * ?ax ! i),
         (if process_type (cfg s) = SHG then ?ax ! i / 2
                 else 1 / (1 / ?ax ! i
                      + 1 / (wavelength2_nm (cfg s) / wavelength1_nm (cfg s) * ?ax ! i))))"
      using that unfolding samples_def by (simp del: map_map)
    ultimately show ?thesis by (simp del: map_map)
  qed
  then have all: "\<forall>i<length (scan_axis r).
        delta_n s m (Some (deg2rad theta_c)) (Some (scan_axis r ! i))
          (Some (if process_type (cfg s) = SHG then scan_axis r ! i
                 else wavelength2_nm (cfg s) / wavelength1_nm (cfg s) * scan_axis r ! i))
          (Some (if process_type (cfg s) = SHG then scan_axis r ! i / 2
                 else 1 / (1 / scan_axis r ! i
                      + 1 / (wavelength2_nm (cfg s) / wavelength1_nm (cfg s) * scan_axis r ! i))))
          None = Inr (dn ! i)"
    unfolding r1 by blast
  have len': "length dn = length (scan_axis r)" unfolding r1 using len .
  show ?thesis by (rule that[OF tc r1 nz len' all w r2])
qed

lemma axis_layout:
  assumes "ax = map (\<lambda>k. c + of_int k * h) (arange_steps step)"
  shows "length ax = nat (2 * step) \<and> (\<forall>i<nat (2 * step). ax ! i = c + (real i - of_int step) * h)"
  using assms by (simp add: arange_steps_length arange_steps_nth)

text \<open>
  C9, as stated: the scan axis is arranged symmetrically around the nominal value. The
  temperature scan around 20 degrees with \<open>step = 2\<close> and \<open>res = 1\<close> has the samples 18,
  19, 20 and 21: the sample two steps below the nominal value is there, the one two
  steps above is not.
\<close>

theorem scan_axis_not_symmetric:
  "scan_axis_of (acceptance_temperature (shg_solver (drift_formulas 0)) [(mode_XXZ, 0)] mode_XXZ 2 1)
     = Inr [18, 19, 20, 21]
   \<and> temperature (cfg (shg_solver (drift_formulas 0))) = 20
   \<and> (20 - 2 :: real) \<in> set [18, 19, 20, 21] \<and> (20 + 2 :: real) \<notin> set [18, 19, 20, 21]"
  by (simp add: scan_axis_of_def acc_temperature_example shg_solver_cfg)

text \<open>
  C9, amended. Each of the three scans, when it returns, has an axis of \<open>2 * step\<close>
  samples (none for a negative \<open>step\<close>); sample \<open>i\<close> lies at the nominal value plus
  \<open>(i - step)\<close> times the spacing. The spacing is \<open>res\<close> nanometres or degrees for the
  wavelength and temperature scans and \<open>res\<close> milliradians for the angle scan, whose axis
  is in radians; the nominal value is the critical angle of the target mode, the
  configured first wavelength, or the configured temperature. The offsets therefore
  run from \<open>- step\<close> to \<open>step - 1\<close> spacings: the nominal value is sample \<open>step\<close>, with
  \<open>step\<close> samples below it and \<open>step - 1\<close> above.
\<close>

theorem scan_axis_layout:
  "(acceptance_angle s dict m step res = Inr r \<longrightarrow>
      (\<exists>theta_c. map_of dict m = Some theta_c \<and> length (scan_axis r) = nat (2 * step)
         \<and> (\<forall>i<nat (2 * step).
               scan_axis r ! i = deg2rad theta_c + (real i - of_int step) * (res / 1000))))
   \<and> (acceptance_wavelength s dict m step res = Inr r \<longrightarrow>
        length (scan_axis r) = nat (2 * step)
         \<and> (\<forall>i<nat (2 * step).
               scan_axis r ! i = wavelength1_nm (cfg s) + (real i - of_int step) * res))
   \<and> (acceptance_temperature s dict m step res = Inr r \<longrightarrow>
        length (scan_axis r) = nat (2 * step)
         \<and> (\<forall>i<nat (2 * step).
               scan_axis r ! i = temperature (cfg s) + (real i - of_int step) * res))"
proof -
  have A: "\<exists>theta_c. map_of dict m = Some theta_c \<and> length (scan_axis r) = nat (2 * step)
         \<and> (\<forall>i<nat (2 * step).
               scan_axis r ! i = deg2rad theta_c + (real i - of_int step) * (res / 1000))"
    if a: "acceptance_angle s dict m step res = Inr r"
  proof -
    from acceptance_angle_Inr[OF a] obtain theta_c where tc: "map_of dict m = Some theta_c"
      and ax: "scan_axis r
        = map (\<lambda>k. deg2rad theta_c + of_int k * res * (1 / 1000)) (arange_steps step)"
      by blast
    have "scan_axis r = map (\<lambda>k. deg2rad theta_c + of_int k * (res / 1000)) (arange_steps step)"
      using ax by simp
    from axis_layout[OF this] tc show ?thesis by blast
  qed
  have W: "length (scan_axis r) = nat (2 * step)
         \<and> (\<forall>i<nat (2 * step).
               scan_axis r ! i = wavelength1_nm (cfg s) + (real i - of_int step) * res)"
    if a: "acceptance_wavelength s dict m step res = Inr r"
  proof -
    from acceptance_wavelength_Inr[OF a] have
      "scan_axis r = map (\<lambda>k. wavelength1_nm (cfg s) + of_int k * res) (arange_steps step)"
      by blast
    from axis_layout[OF this] show ?thesis .
  qed
  have T: "length (scan_axis r) = nat (2 * step)
         \<and> (\<forall>i<nat (2 * step).
               scan_axis r ! i = temperature (cfg s) + (real i - of_int step) * res)"
    if a: "acceptance_temperature s dict m step res = Inr r"
  proof -
    from acceptance_temperature_Inr[OF a] have
      "scan_axis r = map (\<lambda>k. temperature (cfg s) + of_int k * res) (arange_steps step)"
      by blast
    from axis_layout[OF this] show ?thesis .
  qed
  show ?thesis using A W T by blast
qed

theorem scan_axis_layout_witness:
  "acceptance_angle (shg_solver (drift_formulas 0)) [(mode_XXZ, 0)] mode_XXZ 2 1
     = Inr \<lparr>scan_axis = [- 2 / 1000, - 1 / 1000, 0, 1 / 1000], efficiency = [1, 1, 1, 1],
            acceptance = Some 3, secondary = Some (rad2deg (3 / 1000))\<rparr>
   \<and> acceptance_wavelength (shg_solver (drift_formulas 0)) [(mode_XXZ, 0)] mode_XXZ 2 1
     = Inr \<lparr>scan_axis = [1062, 1063, 1064, 1065], efficiency = [1, 1, 1, 1],
            acceptance = Some 3, secondary = Some (299792458 / 1064\<^sup>2 * 3)\<rparr>
   \<and> acceptance_temperature (shg_solver (drift_formulas 0)) [(mode_XXZ, 0)] mode_XXZ 2 1
     = Inr \<lparr>scan_axis = [18, 19, 20, 21], efficiency = [1, 1, 1, 1],
            acceptance = Some 3, secondary = None\<rparr>
   \<and> length [- 2 / 1000, - 1 / 1000, 0, 1 / 1000 :: real] = nat (2 * 2)
   \<and> length [1062, 1063, 1064, 1065 :: real] = nat (2 * 2)
   \<and> length [18, 19, 20, 21 :: real] = nat (2 * 2)"
proof -
  have a: "length [- 2 / 1000, - 1 / 1000, 0, 1 / 1000 :: real] = nat (2 * 2)"
    using scan_axis_layout [of "shg_solver (drift_formulas 0)" "[(mode_XXZ, 0)]" mode_XXZ 2 1
        "\<lparr>scan_axis = [- 2 / 1000, - 1 / 1000, 0, 1 / 1000], efficiency = [1, 1, 1, 1],
            acceptance = Some 3, secondary = Some (rad2deg (3 / 1000))\<rparr>"]
      acc_angle_example by simp
  have w: "length [1062, 1063, 1064, 1065 :: real] = nat (2 * 2)"
    using scan_axis_layout [of "shg_solver (drift_formulas 0)" "[(mode_XXZ, 0)]" mode_XXZ 2 1
        "\<lparr>scan_axis = [1062, 1063, 1064, 1065], efficiency = [1, 1, 1, 1],
            acceptance = Some 3, secondary = Some (299792458 / 1064\<^sup>2 * 3)\<rparr>"]
      acc_wavelength_example by simp
  have t: "length [18, 19, 20, 21 :: real] = nat (2 * 2)"
    using scan_axis_layout [of "shg_solver (drift_formulas 0)" "[(mode_XXZ, 0)]" mode_XXZ 2 1
        "\<lparr>scan_axis = [18, 19, 20, 21], efficiency = [1, 1, 1, 1],
            acceptance = Some 3, secondary = None\<rparr>"]
      acc_temperature_example by simp
  show ?thesis
    using acc_angle_example acc_wavelength_example acc_temperature_example a w t by blast
qed


lemma nominal_index:
  assumes "0 < step"
  shows "nat step < nat (2 * step)" and "real (nat step) - of_int step = 0"
  using assms by simp_all




subsection \<open>Effective-nonlinearity calculator\<close>

lemma d_value_of_defined:
  "\<exists>x. d_value_of crystal pl mode_type (Some th) (Some ph) = Some x"
  by (cases pl) (simp_all add: d_value_of_def Let_def)

lemma d_value_of_unsupported:
  assumes "group crystal \<notin> {''4bar2m'', ''3m'', ''mm2''}"
  shows "d_value_of crystal pl mode_type theta_rad phi_rad = Some 0"
  using assms by (simp add: d_value_of_def)

lemma d_value_of_no_formula:
  assumes "mode_type \<notin> {''OOE'', ''EEO'', ''OEE'', ''OEO''}
     \<or> (group crystal = ''mm2'' \<and> pl = XY \<and> mode_type \<in> {''OEE'', ''OEO''})
     \<or> (group crystal = ''mm2'' \<and> pl \<noteq> XY \<and> mode_type = ''EEO'')"
  shows "d_value_of crystal pl mode_type theta_rad phi_rad = Some 0"
  using assms by (cases pl) (auto simp: d_value_of_def Let_def)

lemma d_eff_one_defined:
  "\<exists>v. d_eff_one s crystal selected_phi mode_name (Some a) = Some v \<and> 0 \<le> v"
proof (cases "get_mode_type mode_name")
  case None
  then show ?thesis by (simp add: d_eff_one_def)
next
  case (Some t)
  obtain th ph where tp: "(case plane (cfg s) of
                   XY \<Rightarrow> (Some (deg2rad 90), map_option deg2rad (Some a))
                 | XZ \<Rightarrow> (map_option deg2rad (Some a),
                          Some (deg2rad (case selected_phi of None \<Rightarrow> 0 | Some p \<Rightarrow> p)))
                 | YZ \<Rightarrow> (map_option deg2rad (Some a),
                          Some (deg2rad (case selected_phi of None \<Rightarrow> 90 | Some p \<Rightarrow> p))))
       = (Some th, Some ph)"
    by (cases "plane (cfg s)") simp_all
  obtain x where "d_value_of crystal (plane (cfg s)) t (Some th) (Some ph) = Some x"
    using d_value_of_defined by blast
  then have "d_eff_one s crystal selected_phi mode_name (Some a) = Some \<bar>x\<bar>"
    using Some tp by (simp add: d_eff_one_def)
  then show ?thesis by simp
qed

lemma d_eff_one_zero:
  assumes "get_mode_type mode_name = None
     \<or> group crystal \<notin> {''4bar2m'', ''3m'', ''mm2''}
     \<or> (\<exists>t. get_mode_type mode_name = Some t
           \<and> (t \<notin> {''OOE'', ''EEO'', ''OEE'', ''OEO''}
              \<or> (group crystal = ''mm2'' \<and> plane (cfg s) = XY \<and> t \<in> {''OEE'', ''OEO''})
              \<or> (group crystal = ''mm2'' \<and> plane (cfg s) \<noteq> XY \<and> t = ''EEO'')))"
  shows "d_eff_one s crystal selected_phi mode_name a = Some 0"
proof (cases "get_mode_type mode_name")
  case None
  then show ?thesis by (simp add: d_eff_one_def)
next
  case (Some t)
  have "d_value_of crystal (plane (cfg s)) t th ph = Some 0" for th ph
  proof (cases "group crystal \<notin> {''4bar2m'', ''3m'', ''mm2''}")
    case True
    then show ?thesis by (rule d_value_of_unsupported)
  next
    case False
    then have "t \<notin> {''OOE'', ''EEO'', ''OEE'', ''OEO''}
              \<or> (group crystal = ''mm2'' \<and> plane (cfg s) = XY \<and> t \<in> {''OEE'', ''OEO''})
              \<or> (group crystal = ''mm2'' \<and> plane (cfg s) \<noteq> XY \<and> t = ''EEO'')"
      using assms Some by auto
    then show ?thesis by (rule d_value_of_no_formula)
  qed
  then show ?thesis using Some
    by (simp add: d_eff_one_def Let_def split: prod.splits)
qed

lemma d_eff_one_value:
  assumes "get_mode_type mode_name = Some t"
  shows "d_eff_one s crystal selected_phi mode_name a =
     map_option abs
       (d_value_of crystal (plane (cfg s)) t
          (case plane (cfg s) of XY \<Rightarrow> Some (deg2rad 90) | XZ \<Rightarrow> map_option deg2rad a
           | YZ \<Rightarrow> map_option deg2rad a)
          (case plane (cfg s) of XY \<Rightarrow> map_option deg2rad a
           | XZ \<Rightarrow> Some (deg2rad (case selected_phi of None \<Rightarrow> 0 | Some p \<Rightarrow> p))
           | YZ \<Rightarrow> Some (deg2rad (case selected_phi of None \<Rightarrow> 90 | Some p \<Rightarrow> p))))"
  using assms by (cases "plane (cfg s)") (simp_all add: d_eff_one_def)

lemma d_value_of_nan_theta:
  assumes "pl \<noteq> XY"
    and "(group crystal \<in> {''4bar2m'', ''3m''} \<and> t \<in> {''OOE'', ''EEO'', ''OEE'', ''OEO''})
       \<or> (group crystal = ''mm2'' \<and> t \<in> {''OOE'', ''OEE'', ''OEO''})"
  shows "d_value_of crystal pl t None ph = None"
  using assms by (cases pl) (auto simp: d_value_of_def Let_def)

lemma d_value_of_nan_phi:
  assumes "(group crystal \<in> {''4bar2m'', ''3m''} \<and> t \<in> {''OOE'', ''EEO'', ''OEE'', ''OEO''})
       \<or> (group crystal = ''mm2'' \<and> t = ''OOE'')"
  shows "d_value_of crystal XY t (Some th) None = None"
  using assms by (auto simp: d_value_of_def Let_def)

lemma d_eff_one_nan:
  assumes "get_mode_type mode_name = Some t"
    and "(group crystal \<in> {''4bar2m'', ''3m''} \<and> t \<in> {''OOE'', ''EEO'', ''OEE'', ''OEO''})
       \<or> (group crystal = ''mm2'' \<and> plane (cfg s) = XY \<and> t = ''OOE'')
       \<or> (group crystal = ''mm2'' \<and> plane (cfg s) \<noteq> XY \<and> t \<in> {''OOE'', ''OEE'', ''OEO''})"
  shows "d_eff_one s crystal selected_phi mode_name None = None"
proof (cases "plane (cfg s) = XY")
  case True
  have "(group crystal \<in> {''4bar2m'', ''3m''} \<and> t \<in> {''OOE'', ''EEO'', ''OEE'', ''OEO''})
       \<or> (group crystal = ''mm2'' \<and> t = ''OOE'')"
    using assms(2) True by auto
  from d_value_of_nan_phi[OF this] show ?thesis
    using True by (simp add: d_eff_one_value[OF assms(1)])
next
  case False
  have "(group crystal \<in> {''4bar2m'', ''3m''} \<and> t \<in> {''OOE'', ''EEO'', ''OEE'', ''OEO''})
       \<or> (group crystal = ''mm2'' \<and> t \<in> {''OOE'', ''OEE'', ''OEO''})"
    using assms(2) False by auto
  from d_value_of_nan_theta[OF False this] show ?thesis
    using False by (cases "plane (cfg s)") (simp_all add: d_eff_one_value[OF assms(1)])
qed

text \<open>
  C6, as stated: for every mode the calculator returns a non-negative number. The
  dictionary it is given holds \<^verbatim>\<open>nan\<close> for every mode without a critical angle, and the
  calculator has no guard for it: for the crystal LBO in the XZ plane the first mode with
  a \<^verbatim>\<open>nan\<close> angle gets the coefficient \<^verbatim>\<open>nan\<close>, which is not a non-negative number.
\<close>

theorem d_eff_nan_angle:
  "d_eff (shg_solver (constant_formulas 2 2 3)) [(mode_OOE, None)] None
     = Inr [(mode_OOE, None)]"
  by (simp add: d_eff_def shg_crystal d_eff_one_def mode_types shg_solver_cfg d_value_of_def
        d_get_def deg2rad_def)

text \<open>
  C6, amended. When the calculator returns, the crystal is in the table and there is one
  entry per entry of the angle dictionary, under the same mode. For a mode whose
  critical angle is defined the coefficient is a non-negative number. For a mode with a
  recognised matching type it is the absolute value of the point-group contraction
  \<open>d_value_of\<close> at these angles in radians: in the XY plane \<open>theta\<close> is 90 degrees and
  \<open>phi\<close> is the critical angle; in the XZ and YZ planes \<open>theta\<close> is the critical angle
  and \<open>phi\<close> is the selected azimuth, 0 degrees in XZ and 90 degrees in YZ when none is
  selected. The coefficient is exactly 0, whatever the angle, when the matching type is
  not recognised, when the symmetry group is none of 4bar2m, 3m and mm2, and when the
  type and plane have no formula: a type outside OOE, EEO, OEE and OEO, type II in the
  XY plane of mm2, or EEO in the XZ and YZ planes of mm2. For a mode whose critical
  angle is \<^verbatim>\<open>nan\<close> the coefficient is \<^verbatim>\<open>nan\<close> whenever the formula reads the critical
  angle: every formula of 4bar2m and 3m, and those of mm2 for OOE in the XY plane and
  for OOE, OEE and OEO in the XZ and YZ planes.
\<close>

theorem d_eff_absolute_contraction:
  assumes "d_eff s theta_critical_dict selected_phi = Inr res"
  shows "\<exists>crystal. crystal_db (cfg s) (crystal_name (cfg s)) = Some crystal
    \<and> length res = length theta_critical_dict
    \<and> (\<forall>i<length theta_critical_dict.
          fst (res ! i) = fst (theta_critical_dict ! i)
        \<and> (snd (theta_critical_dict ! i) \<noteq> None \<longrightarrow> (\<exists>v. snd (res ! i) = Some v \<and> 0 \<le> v))
        \<and> (\<forall>t. get_mode_type (fst (theta_critical_dict ! i)) = Some t \<longrightarrow>
              snd (res ! i) =
                map_option abs
                  (d_value_of crystal (plane (cfg s)) t
                     (case plane (cfg s) of
                        XY \<Rightarrow> Some (deg2rad 90)
                      | XZ \<Rightarrow> map_option deg2rad (snd (theta_critical_dict ! i))
                      | YZ \<Rightarrow> map_option deg2rad (snd (theta_critical_dict ! i)))
                     (case plane (cfg s) of
                        XY \<Rightarrow> map_option deg2rad (snd (theta_critical_dict ! i))
                      | XZ \<Rightarrow> Some (deg2rad (case selected_phi of None \<Rightarrow> 0 | Some p \<Rightarrow> p))
                      | YZ \<Rightarrow> Some (deg2rad (case selected_phi of None \<Rightarrow> 90 | Some p \<Rightarrow> p)))))
        \<and> (get_mode_type (fst (theta_critical_dict ! i)) = None \<longrightarrow> snd (res ! i) = Some 0)
        \<and> (group crystal \<notin> {''4bar2m'', ''3m'', ''mm2''} \<longrightarrow> snd (res ! i) = Some 0)
        \<and> (\<forall>t. get_mode_type (fst (theta_critical_dict ! i)) = Some t
              \<and> (t \<notin> {''OOE'', ''EEO'', ''OEE'', ''OEO''}
                 \<or> (group crystal = ''mm2'' \<and> plane (cfg s) = XY \<and> t \<in> {''OEE'', ''OEO''})
                 \<or> (group crystal = ''mm2'' \<and> plane (cfg s) \<noteq> XY \<and> t = ''EEO''))
              \<longrightarrow> snd (res ! i) = Some 0)
        \<and> (\<forall>t. snd (theta_critical_dict ! i) = None
              \<and> get_mode_type (fst (theta_critical_dict ! i)) = Some t
              \<and> ((group crystal \<in> {''4bar2m'', ''3m''}
                    \<and> t \<in> {''OOE'', ''EEO'', ''OEE'', ''OEO''})
                 \<or> (group crystal = ''mm2'' \<and> plane (cfg s) = XY \<and> t = ''OOE'')
                 \<or> (group crystal = ''mm2'' \<and> plane (cfg s) \<noteq> XY
                    \<and> t \<in> {''OOE'', ''OEE'', ''OEO''}))
              \<longrightarrow> snd (res ! i) = None))"
proof -
  from assms obtain crystal where c: "crystal_db (cfg s) (crystal_name (cfg s)) = Some crystal"
    and r: "res = map (\<lambda>(mode_name, critical_angle_deg).
                 (mode_name, d_eff_one s crystal selected_phi mode_name critical_angle_deg))
               theta_critical_dict"
    by (auto simp: d_eff_def split: option.splits)
  have len: "length res = length theta_critical_dict" using r by simp
  have ent: "res ! i = (fst (theta_critical_dict ! i),
       d_eff_one s crystal selected_phi (fst (theta_critical_dict ! i)) (snd (theta_critical_dict ! i)))"
    if "i < length theta_critical_dict" for i
    using that r by (simp add: case_prod_beta)
  have "fst (res ! i) = fst (theta_critical_dict ! i)
        \<and> (snd (theta_critical_dict ! i) \<noteq> None \<longrightarrow> (\<exists>v. snd (res ! i) = Some v \<and> 0 \<le> v))
        \<and> (\<forall>t. get_mode_type (fst (theta_critical_dict ! i)) = Some t \<longrightarrow>
              snd (res ! i) =
                map_option abs
                  (d_value_of crystal (plane (cfg s)) t
                     (case plane (cfg s) of
                        XY \<Rightarrow> Some (deg2rad 90)
                      | XZ \<Rightarrow> map_option deg2rad (snd (theta_critical_dict ! i))
                      | YZ \<Rightarrow> map_option deg2rad (snd (theta_critical_dict ! i)))
                     (case plane (cfg s) of
                        XY \<Rightarrow> map_option deg2rad (snd (theta_critical_dict ! i))
                      | XZ \<Rightarrow> Some (deg2rad (case selected_phi of None \<Rightarrow> 0 | Some p \<Rightarrow> p))
                      | YZ \<Rightarrow> Some (deg2rad (case selected_phi of None \<Rightarrow> 90 | Some p \<Rightarrow> p)))))
        \<and> (get_mode_type (fst (theta_critical_dict ! i)) = None \<longrightarrow> snd (res ! i) = Some 0)
        \<and> (group crystal \<notin> {''4bar2m'', ''3m'', ''mm2''} \<longrightarrow> snd (res ! i) = Some 0)
        \<and> (\<forall>t. get_mode_type (fst (theta_critical_dict ! i)) = Some t
              \<and> (t \<notin> {''OOE'', ''EEO'', ''OEE'', ''OEO''}
                 \<or> (group crystal = ''mm2'' \<and> plane (cfg s) = XY \<and> t \<in> {''OEE'', ''OEO''})
                 \<or> (group crystal = ''mm2'' \<and> plane (cfg s) \<noteq> XY \<and> t = ''EEO''))
              \<longrightarrow> snd (res ! i) = Some 0)
        \<and> (\<forall>t. snd (theta_critical_dict ! i) = None
              \<and> get_mode_type (fst (theta_critical_dict ! i)) = Some t
              \<and> ((group crystal \<in> {''4bar2m'', ''3m''}
                    \<and> t \<in> {''OOE'', ''EEO'', ''OEE'', ''OEO''})
                 \<or> (group crystal = ''mm2'' \<and> plane (cfg s) = XY \<and> t = ''OOE'')
                 \<or> (group crystal = ''mm2'' \<and> plane (cfg s) \<noteq> XY
                    \<and> t \<in> {''OOE'', ''OEE'', ''OEO''}))
              \<longrightarrow> snd (res ! i) = None)"
    if i: "i < length theta_critical_dict" for i
  proof -
    let ?m = "fst (theta_critical_dict ! i)" and ?a = "snd (theta_critical_dict ! i)"
    have s2: "snd (res ! i) = d_eff_one s crystal selected_phi ?m ?a" using ent[OF i] by simp
    have 1: "fst (res ! i) = ?m" using ent[OF i] by simp
    have 2: "\<exists>v. snd (res ! i) = Some v \<and> 0 \<le> v" if "?a \<noteq> None"
    proof -
      from that obtain a where "?a = Some a" by auto
      then show ?thesis using d_eff_one_defined[of s crystal selected_phi ?m a] s2 by simp
    qed
    have 3: "snd (res ! i) =
                map_option abs
                  (d_value_of crystal (plane (cfg s)) t
                     (case plane (cfg s) of
                        XY \<Rightarrow> Some (deg2rad 90)
                      | XZ \<Rightarrow> map_option deg2rad ?a
                      | YZ \<Rightarrow> map_option deg2rad ?a)
                     (case plane (cfg s) of
                        XY \<Rightarrow> map_option deg2rad ?a
                      | XZ \<Rightarrow> Some (deg2rad (case selected_phi of None \<Rightarrow> 0 | Some p \<Rightarrow> p))
                      | YZ \<Rightarrow> Some (deg2rad (case selected_phi of None \<Rightarrow> 90 | Some p \<Rightarrow> p))))"
      if "get_mode_type ?m = Some t" for t
      using d_eff_one_value[OF that, of s crystal selected_phi ?a] s2 by simp
    have 4: "snd (res ! i) = Some 0" if "get_mode_type ?m = None"
      using d_eff_one_zero[of ?m crystal s selected_phi ?a] that s2 by simp
    have 5: "snd (res ! i) = Some 0" if "group crystal \<notin> {''4bar2m'', ''3m'', ''mm2''}"
      using d_eff_one_zero[of ?m crystal s selected_phi ?a] that s2 by simp
    have 6: "snd (res ! i) = Some 0"
      if "get_mode_type ?m = Some t
              \<and> (t \<notin> {''OOE'', ''EEO'', ''OEE'', ''OEO''}
                 \<or> (group crystal = ''mm2'' \<and> plane (cfg s) = XY \<and> t \<in> {''OEE'', ''OEO''})
                 \<or> (group crystal = ''mm2'' \<and> plane (cfg s) \<noteq> XY \<and> t = ''EEO''))" for t
    proof -
      have "\<exists>t. get_mode_type ?m = Some t
           \<and> (t \<notin> {''OOE'', ''EEO'', ''OEE'', ''OEO''}
              \<or> (group crystal = ''mm2'' \<and> plane (cfg s) = XY \<and> t \<in> {''OEE'', ''OEO''})
              \<or> (group crystal = ''mm2'' \<and> plane (cfg s) \<noteq> XY \<and> t = ''EEO''))"
        using that by blast
      then show ?thesis using d_eff_one_zero[of ?m crystal s selected_phi ?a] s2 by simp
    qed
    have 7: "snd (res ! i) = None"
      if "?a = None \<and> get_mode_type ?m = Some t
              \<and> ((group crystal \<in> {''4bar2m'', ''3m''}
                    \<and> t \<in> {''OOE'', ''EEO'', ''OEE'', ''OEO''})
                 \<or> (group crystal = ''mm2'' \<and> plane (cfg s) = XY \<and> t = ''OOE'')
                 \<or> (group crystal = ''mm2'' \<and> plane (cfg s) \<noteq> XY
                    \<and> t \<in> {''OOE'', ''OEE'', ''OEO''}))" for t
    proof -
      from that have a: "?a = None" and g: "get_mode_type ?m = Some t"
        and k: "(group crystal \<in> {''4bar2m'', ''3m''} \<and> t \<in> {''OOE'', ''EEO'', ''OEE'', ''OEO''})
       \<or> (group crystal = ''mm2'' \<and> plane (cfg s) = XY \<and> t = ''OOE'')
       \<or> (group crystal = ''mm2'' \<and> plane (cfg s) \<noteq> XY \<and> t \<in> {''OOE'', ''OEE'', ''OEO''})"
        by blast+
      from d_eff_one_nan[OF g k] show ?thesis using s2 a by simp
    qed
    show ?thesis using 1 2 3 4 5 6 7 by blast
  qed
  then show ?thesis using c len by blast
qed

theorem d_eff_absolute_contraction_witness:
  "d_eff (kdp_solver (constant_formulas 2 2 3))
       [(mode_OOE, Some 90), (mode_OEE, None), (mode_XXZ, Some 90)] (Some 45)
     = Inr [(mode_OOE, Some (39 / 100)), (mode_OEE, None), (mode_XXZ, Some 0)]
   \<and> map_option abs
        (d_value_of \<lparr>group = ''4bar2m'', d = [''d36'' \<mapsto> 0.39, ''d14'' \<mapsto> 0.39]\<rparr> XZ ''OOE''
           (Some (deg2rad 90)) (Some (deg2rad 45))) = Some (39 / 100)
   \<and> map_option abs
        (d_value_of \<lparr>group = ''4bar2m'', d = [''d36'' \<mapsto> 0.39, ''d14'' \<mapsto> 0.39]\<rparr> XZ ''OEE''
           None (Some (deg2rad 45))) = None"
proof -
  let ?s = "kdp_solver (constant_formulas 2 2 3)"
  let ?c = "\<lparr>group = ''4bar2m'', d = [''d36'' \<mapsto> 0.39 :: real, ''d14'' \<mapsto> 0.39]\<rparr>"
  from d_eff_absolute_contraction [OF d_eff_kdp_example]
  obtain crystal where c: "crystal_db (cfg ?s) (crystal_name (cfg ?s)) = Some crystal"
    and all: "\<forall>i<3. \<forall>t. get_mode_type
                (fst ([(mode_OOE, Some (90 :: real)), (mode_OEE, None), (mode_XXZ, Some 90)] ! i))
              = Some t \<longrightarrow>
          snd ([(mode_OOE, Some (39 / 100 :: real)), (mode_OEE, None), (mode_XXZ, Some 0)] ! i)
            = map_option abs
                (d_value_of crystal XZ t
                  (map_option deg2rad
                    (snd ([(mode_OOE, Some (90 :: real)), (mode_OEE, None), (mode_XXZ, Some 90)] ! i)))
                  (Some (deg2rad 45)))"
    unfolding kdp_plane by (auto simp: kdp_plane)
  from c have crystal: "crystal = ?c" by (simp add: kdp_crystal)
  from all [rule_format, of 0 "''OOE''"] all [rule_format, of 1 "''OEE''"]
  show ?thesis using d_eff_kdp_example by (simp add: crystal mode_types)
qed

subsection \<open>Walk-off calculator\<close>

lemma walkoff_one_nan: "walkoff_one s mode_name None = Inr Walkoff_nan"
  by (simp add: walkoff_one_def)

lemma calc_walkoff_ordinary: "calc_walkoff s theta_rad BoldO wavelength_nm = (0, 0)"
  by (simp add: calc_walkoff_def)

text \<open>
  C5. For a mode with a defined critical angle the walk-off of every extraordinary beam
  is claimed to be computed from the principal indices at that beam's own wavelength.
  The code takes the indices of the first input slot at the first configured wavelength
  and those of the second slot at the second, whatever the identifier says. The fourth
  SFG mode of the inputs 1064 nm and 532 nm lists the ordinary beam at 532 nm first and
  the extraordinary beam at 1064 nm second. At 45 degrees in the XZ plane, with indices
  \<open>n_x = 1\<close> and \<open>n_z = 1 + wavelength\<close>, the walk-off reported for the extraordinary
  input is \<open>pi / 4 - arctan (1.532\<^sup>2)\<close>, from the indices at 532 nm; the beam's own
  wavelength, 1064 nm, gives \<open>pi / 4 - arctan (2.064\<^sup>2)\<close>.
\<close>

theorem walkoff_swapped_mode_other_wavelength:
  "Solver_init (sfg_config dispersive_formulas) = Inr (sfg_solver dispersive_formulas)
   \<and> mode_names (sfg_solver dispersive_formulas) ! 3 = mode_sfg_OEE_swapped
   \<and> walkoff_angle (sfg_solver dispersive_formulas) [(mode_sfg_OEE_swapped, Some 45)] 0
       = Inr [(mode_sfg_OEE_swapped,
           Walkoff [(BoldO, 0, 0),
                    (BoldE, rad2deg (pi / 4 - arctan ((1 + 532 / 1000)\<^sup>2)),
                            (pi / 4 - arctan ((1 + 532 / 1000)\<^sup>2)) * 1000),
                    (BoldE, rad2deg (pi / 4 - arctan ((1 + 1064 / 3 / 1000)\<^sup>2)),
                            (pi / 4 - arctan ((1 + 1064 / 3 / 1000)\<^sup>2)) * 1000)])]
   \<and> pi / 4 - arctan ((1 + 532 / 1000)\<^sup>2) \<noteq> pi / 4 - arctan ((1 + 1064 / 1000)\<^sup>2)"
proof -
  have "arctan ((1 + 532 / 1000)\<^sup>2) \<noteq> arctan ((1 + 1064 / 1000 :: real)\<^sup>2)"
    by (simp add: arctan_eq_iff power2_eq_square)
  then have "pi / 4 - arctan ((1 + 532 / 1000)\<^sup>2) \<noteq> pi / 4 - arctan ((1 + 1064 / 1000)\<^sup>2)"
    by simp
  then show ?thesis using sfg_init_ok sfg_mode_4 walkoff_swapped by blast
qed

subsection \<open>Phase-mismatch evaluator\<close>





lemma input_pols_empty_iff: "input_pols ip = [] \<longleftrightarrow> BoldO \<notin> set ip \<and> BoldE \<notin> set ip"
proof -
  have "length (input_pols ip) = (if BoldO \<in> set ip then 1 else 0) + (if BoldE \<in> set ip then 1 else 0)"
    by (simp add: input_pols_def)
  then show ?thesis by (auto split: if_splits)
qed

lemma input_pols_set:
  "fst ` set (input_pols ip) = {p. (p = BoldO \<or> p = BoldE) \<and> p \<in> set ip}"
  by (auto simp: input_pols_def)

lemma input_pols_length: "length (input_pols ip) \<le> 2"
  by (simp add: input_pols_def)

lemma pols_E_iff:
  assumes "input_pols ip \<noteq> []"
  shows "(fst (input_pols ip ! 0) = BoldE
          \<or> (if 1 < length (input_pols ip) then fst (input_pols ip ! 1) else fst (input_pols ip ! 0)) = BoldE)
         \<longleftrightarrow> BoldE \<in> set ip"
proof -
  let ?ps = "input_pols ip"
  have len: "length ?ps = 1 \<or> length ?ps = 2"
  proof -
    have "length ?ps \<noteq> 0" using assms by simp
    then show ?thesis using input_pols_length[of ip] by linarith
  qed
  have "BoldE \<in> set ip \<longleftrightarrow> BoldE \<in> fst ` set ?ps"
    unfolding input_pols_set by simp
  also have "\<dots> \<longleftrightarrow> (\<exists>i<length ?ps. fst (?ps ! i) = BoldE)"
  proof
    assume "BoldE \<in> fst ` set ?ps"
    then obtain x where x: "x \<in> set ?ps" "fst x = BoldE" by auto
    then obtain i where "i < length ?ps" "?ps ! i = x" by (auto simp: in_set_conv_nth)
    then show "\<exists>i<length ?ps. fst (?ps ! i) = BoldE" using x by auto
  next
    assume "\<exists>i<length ?ps. fst (?ps ! i) = BoldE"
    then obtain i where i: "i < length ?ps" "fst (?ps ! i) = BoldE" by auto
    then have "?ps ! i \<in> set ?ps" by simp
    then show "BoldE \<in> fst ` set ?ps" using i(2) by (metis imageI)
  qed
  also have "\<dots> \<longleftrightarrow> (fst (?ps ! 0) = BoldE
          \<or> (if 1 < length ?ps then fst (?ps ! 1) else fst (?ps ! 0)) = BoldE)"
  proof (cases "length ?ps = 1")
    case True
    then show ?thesis by auto
  next
    case False
    then have l2: "length ?ps = 2" using len by simp
    have "(\<exists>i<2. fst (?ps ! i) = BoldE) \<longleftrightarrow> fst (?ps ! 0) = BoldE \<or> fst (?ps ! 1) = BoldE"
      by (auto simp: less_Suc_eq numeral_2_eq_2)
    then show ?thesis using l2 by simp
  qed
  finally show ?thesis by simp
qed

lemma delta_n_oe_Inl_iff:
  "(\<exists>e. delta_n_oe s m theta wl1 wl2 wl_out i1 i2 io ip op = Inl e) \<longleftrightarrow>
     length (findall_nm m) < 3
     \<or> (BoldO \<notin> set ip \<and> BoldE \<notin> set ip)
     \<or> (theta = None \<and> (BoldE \<in> set ip \<or> output_pol op = BoldE))
     \<or> (process_type (cfg s) \<noteq> SHG \<and> (wl1 = 0 \<or> wl2 = 0))"
proof (cases "length (findall_nm m) < 3")
  case True
  then show ?thesis by (simp add: delta_n_oe_def)
next
  case f: False
  show ?thesis
  proof (cases "input_pols ip = []")
    case True
    then show ?thesis using f input_pols_empty_iff[of ip] by (simp add: delta_n_oe_def Let_def)
  next
    case p: False
    then have ne: "\<not> (BoldO \<notin> set ip \<and> BoldE \<notin> set ip)"
      using input_pols_empty_iff[of ip] by simp
    note e = pols_E_iff[OF p]
    show ?thesis
    proof (cases "theta = None \<and> (BoldE \<in> set ip \<or> output_pol op = BoldE)")
      case True
      then show ?thesis using f p e by (auto simp: delta_n_oe_def Let_def)
    next
      case t: False
      then have g: "\<not> (theta = None \<and>
          (fst (input_pols ip ! 0) = BoldE
           \<or> (if 1 < length (input_pols ip) then fst (input_pols ip ! 1)
               else fst (input_pols ip ! 0)) = BoldE
           \<or> output_pol op = BoldE))"
        using e by auto
      show ?thesis
      proof (cases "process_type (cfg s) = SHG")
        case True
        then show ?thesis using f p t g ne e by (auto simp: delta_n_oe_def Let_def)
      next
        case False
        have "(\<exists>e. delta_n_oe s m theta wl1 wl2 wl_out i1 i2 io ip op = Inl e)
            \<longleftrightarrow> (wl1 = 0 \<or> wl2 = 0)"
          using f p g False by (auto simp: delta_n_oe_def Let_def)
        then show ?thesis using f ne t False by auto
      qed
    qed
  qed
qed

lemma delta_n_terms_unfold:
  "delta_n_terms s m theta w1o w2o woo To =
     (if length (py_split Arrow m) \<noteq> 2 then Inl ValueError
      else if is_xyz_notation m
        then delta_n_xyz s
               (get_indices (cfg s) (Some (in_effect w1o (wavelength1_nm (cfg s))))
                  (Some (in_effect To (temperature (cfg s)))))
               (get_indices (cfg s) (Some (in_effect w2o (wavelength2_nm (cfg s))))
                  (Some (in_effect To (temperature (cfg s)))))
               (get_indices (cfg s) (Some (in_effect woo (wavelength_out_nm (cfg s))))
                  (Some (in_effect To (temperature (cfg s)))))
               (py_strip (py_split Arrow m ! 0)) (py_strip (py_split Arrow m ! 1))
        else delta_n_oe s m theta (in_effect w1o (wavelength1_nm (cfg s)))
               (in_effect w2o (wavelength2_nm (cfg s)))
               (in_effect woo (wavelength_out_nm (cfg s)))
               (get_indices (cfg s) (Some (in_effect w1o (wavelength1_nm (cfg s))))
                  (Some (in_effect To (temperature (cfg s)))))
               (get_indices (cfg s) (Some (in_effect w2o (wavelength2_nm (cfg s))))
                  (Some (in_effect To (temperature (cfg s)))))
               (get_indices (cfg s) (Some (in_effect woo (wavelength_out_nm (cfg s))))
                  (Some (in_effect To (temperature (cfg s)))))
               (py_strip (py_split Arrow m ! 0)) (py_strip (py_split Arrow m ! 1)))"
  by (simp add: delta_n_terms_def Let_def)

lemma delta_n_Inl_iff_terms:
  "(\<exists>e. delta_n s m theta w1o w2o woo To = Inl e)
     \<longleftrightarrow> (\<exists>e. delta_n_terms s m theta w1o w2o woo To = Inl e)"
  by (auto simp: delta_n_def split: sum.splits)

lemma delta_n_oe_weights:
  assumes "delta_n_oe s m theta wl1 wl2 wl_out i1 i2 io ip op = Inr t"
  shows "(process_type (cfg s) = SHG \<longrightarrow> w1 t = 1 / 2 \<and> w2 t = 1 / 2)
    \<and> (process_type (cfg s) \<noteq> SHG \<longrightarrow>
         (let same = (\<bar>float_of_digits (findall_nm m ! 0) - wl1\<bar> < 1);
              a1 = (if same then wl1 else wl2); a2 = (if same then wl2 else wl1)
          in w1 t = wl_out / a1 \<and> w2 t = wl_out / a2
             \<and> w1 t * a1 = wl_out \<and> w2 t * a2 = wl_out))"
  using assms
  by (auto simp: delta_n_oe_def Let_def split: if_splits)

lemma delta_n_xyz_weights:
  assumes "delta_n_xyz s i1 i2 io ip op = Inr t"
  shows "w1 t = weight1 s \<and> w2 t = weight2 s"
  using assms by (auto simp: delta_n_xyz_def Let_def split: sum.splits)

lemma Solver_init_weights:
  assumes "Solver_init c = Inr s"
  shows "cfg s = c
    \<and> (process_type c = SHG \<longrightarrow> weight1 s = 1 / 2 \<and> weight2 s = 1 / 2)
    \<and> (process_type c \<noteq> SHG \<longrightarrow>
          weight1 s = wavelength_out_nm c / wavelength1_nm c
        \<and> weight2 s = wavelength_out_nm c / wavelength2_nm c
        \<and> weight1 s * wavelength1_nm c = wavelength_out_nm c
        \<and> weight2 s * wavelength2_nm c = wavelength_out_nm c)"
  using assms
  by (auto simp: Solver_init_def Let_def split: prod.splits if_splits)

lemma sfg_solver_cfg:
  "temperature (cfg (sfg_solver f)) = 20"
  "wavelength1_nm (cfg (sfg_solver f)) = 1064"
  "wavelength2_nm (cfg (sfg_solver f)) = 532"
  "wavelength_out_nm (cfg (sfg_solver f)) = 1064 / 3"
  "process_type (cfg (sfg_solver f)) = SFG"
  "plane (cfg (sfg_solver f)) = XZ"
  by (simp_all add: sfg_solver_def sfg_config_def)

lemma terms_sfg_XXZ_override:
  "delta_n_terms (sfg_solver dispersive_formulas) mode_sfg_XXZ None (Some 800) None None None
     = Inr \<lparr>w1 = 1 / 3, n1 = 1, w2 = 2 / 3, n2 = 1, n_out = 1 + 1064 / 3 / 1000\<rparr>"
  by (simp add: delta_n_terms_def in_effect_def delta_n_xyz_def mode_sfg_XXZ_def str_defs Let_def
        extract_xyz_pol_def xyz_key_def xyz_to_key_def get_indices_def sfg_solver_def
        sfg_config_def dispersive_formulas_def)

lemma terms_sfg_swapped:
  "delta_n_terms (sfg_solver dispersive_formulas) mode_sfg_OEE_swapped (Some 0) None None None None
     = Inr \<lparr>w1 = 2 / 3, n1 = 1, w2 = 1 / 3, n2 = 1, n_out = 1\<rparr>"
  by (simp add: delta_n_terms_def in_effect_def delta_n_oe_def mode_sfg_OEE_swapped_def str_defs
        Let_def beam_index_def get_indices_def sfg_solver_def sfg_config_def
        dispersive_formulas_def ne_func_def)






lemma alphabet_sfg_swapped:
  "set mode_sfg_OEE_swapped
     \<subseteq> {c. c < 128} \<union> {BoldO, BoldE, BoldX, BoldY, BoldZ, Arrow}"
  by (simp add: mode_sfg_OEE_swapped_def str_defs)



lemma first_label_sfg_swapped: "float_of_digits (findall_nm mode_sfg_OEE_swapped ! 0) = 532"
  by (simp add: mode_sfg_OEE_swapped_def str_defs)

lemma xyz_sfg_swapped: "\<not> is_xyz_notation mode_sfg_OEE_swapped"
  by (simp add: mode_sfg_OEE_swapped_def str_defs)


text \<open>
  C3, as stated: in every evaluation of the phase mismatch under SFG the two weights are
  the output wavelength over the two input wavelengths in effect, overrides included, so
  that each weight times its wavelength is the output wavelength; this for every mode, the
  axis-locked ones included. An axis-locked mode takes the weights fixed at construction
  from the configured wavelengths. For the inputs 1064 nm and 532 nm and the first
  wavelength overridden to 800 nm, the first weight of the mode X + X to Z is still
  \<open>1 / 3\<close>, and \<open>1 / 3\<close> of 800 is not the output wavelength \<open>1064 / 3\<close> in effect.
\<close>

theorem xyz_weights_ignore_overrides:
  "Solver_init (sfg_config dispersive_formulas) = Inr (sfg_solver dispersive_formulas)
   \<and> delta_n_terms (sfg_solver dispersive_formulas) mode_sfg_XXZ None (Some 800) None None None
     = Inr \<lparr>w1 = 1 / 3, n1 = 1, w2 = 2 / 3, n2 = 1, n_out = 1 + 1064 / 3 / 1000\<rparr>
   \<and> in_effect (Some 800) (wavelength1_nm (cfg (sfg_solver dispersive_formulas))) = 800
   \<and> in_effect None (wavelength_out_nm (cfg (sfg_solver dispersive_formulas))) = 1064 / 3
   \<and> (1 / 3 :: real) * 800 \<noteq> 1064 / 3"
  by (simp add: sfg_init_ok terms_sfg_XXZ_override in_effect_def sfg_solver_cfg)

text \<open>
  C3, amended. For an identifier written in ASCII, the bold letters and the arrow, when
  the evaluation returns it returns the first weight times the first index plus the
  second weight times the second index minus the output index. For a mode in the
  ordinary and extraordinary notation the weights are \<open>1 / 2\<close> and \<open>1 / 2\<close> under SHG; under
  SFG they are the output wavelength in effect over the wavelength in effect of each
  beam, where the first beam has the first wavelength when the first label of the
  identifier is within 1 nm of it and the second wavelength otherwise, and each weight
  times the wavelength of its beam is the output wavelength. For an axis-locked mode the
  weights are those fixed at construction, whatever the overrides: \<open>1 / 2\<close> and \<open>1 / 2\<close>
  under SHG, and under SFG the configured output wavelength over the two configured
  input wavelengths.
\<close>

theorem weights_of_evaluation:
  assumes "set m \<subseteq> {c. c < 128} \<union> {BoldO, BoldE, BoldX, BoldY, BoldZ, Arrow}"
    and terms: "delta_n_terms s m theta w1o w2o woo To = Inr t"
  shows "delta_n s m theta w1o w2o woo To = Inr (w1 t * n1 t + w2 t * n2 t - n_out t)
    \<and> (\<not> is_xyz_notation m \<and> process_type (cfg s) = SHG \<longrightarrow> w1 t = 1 / 2 \<and> w2 t = 1 / 2)
    \<and> (\<not> is_xyz_notation m \<and> process_type (cfg s) \<noteq> SHG \<longrightarrow>
         (let wl1 = in_effect w1o (wavelength1_nm (cfg s));
              wl2 = in_effect w2o (wavelength2_nm (cfg s));
              wl_out = in_effect woo (wavelength_out_nm (cfg s));
              same = (\<bar>float_of_digits (findall_nm m ! 0) - wl1\<bar> < 1);
              a1 = (if same then wl1 else wl2); a2 = (if same then wl2 else wl1)
          in w1 t = wl_out / a1 \<and> w2 t = wl_out / a2
             \<and> w1 t * a1 = wl_out \<and> w2 t * a2 = wl_out))
    \<and> (is_xyz_notation m \<longrightarrow> w1 t = weight1 s \<and> w2 t = weight2 s)
    \<and> (\<forall>c. Solver_init c = Inr s \<longrightarrow>
          (process_type c = SHG \<longrightarrow> weight1 s = 1 / 2 \<and> weight2 s = 1 / 2)
        \<and> (process_type c \<noteq> SHG \<longrightarrow>
              weight1 s = wavelength_out_nm c / wavelength1_nm c
            \<and> weight2 s = wavelength_out_nm c / wavelength2_nm c
            \<and> weight1 s * wavelength1_nm c = wavelength_out_nm c
            \<and> weight2 s * wavelength2_nm c = wavelength_out_nm c))"
proof -
  have d: "delta_n s m theta w1o w2o woo To = Inr (w1 t * n1 t + w2 t * n2 t - n_out t)"
    using terms by (simp add: delta_n_def)
  have l: "length (py_split Arrow m) = 2"
    using terms by (auto simp: delta_n_terms_unfold split: if_splits)
  have oe: "(process_type (cfg s) = SHG \<longrightarrow> w1 t = 1 / 2 \<and> w2 t = 1 / 2)
    \<and> (process_type (cfg s) \<noteq> SHG \<longrightarrow>
         (let wl1 = in_effect w1o (wavelength1_nm (cfg s));
              wl2 = in_effect w2o (wavelength2_nm (cfg s));
              wl_out = in_effect woo (wavelength_out_nm (cfg s));
              same = (\<bar>float_of_digits (findall_nm m ! 0) - wl1\<bar> < 1);
              a1 = (if same then wl1 else wl2); a2 = (if same then wl2 else wl1)
          in w1 t = wl_out / a1 \<and> w2 t = wl_out / a2
             \<and> w1 t * a1 = wl_out \<and> w2 t * a2 = wl_out))"
    if "\<not> is_xyz_notation m"
  proof -
    from terms l that obtain i1 i2 io ip op where
      "delta_n_oe s m theta (in_effect w1o (wavelength1_nm (cfg s)))
               (in_effect w2o (wavelength2_nm (cfg s)))
               (in_effect woo (wavelength_out_nm (cfg s))) i1 i2 io ip op = Inr t"
      by (auto simp: delta_n_terms_unfold)
    from delta_n_oe_weights[OF this] show ?thesis unfolding Let_def .
  qed
  have xyz: "w1 t = weight1 s \<and> w2 t = weight2 s" if "is_xyz_notation m"
  proof -
    from terms l that obtain i1 i2 io ip op where "delta_n_xyz s i1 i2 io ip op = Inr t"
      by (auto simp: delta_n_terms_unfold)
    then show ?thesis by (rule delta_n_xyz_weights)
  qed
  have init: "(process_type c = SHG \<longrightarrow> weight1 s = 1 / 2 \<and> weight2 s = 1 / 2)
        \<and> (process_type c \<noteq> SHG \<longrightarrow>
              weight1 s = wavelength_out_nm c / wavelength1_nm c
            \<and> weight2 s = wavelength_out_nm c / wavelength2_nm c
            \<and> weight1 s * wavelength1_nm c = wavelength_out_nm c
            \<and> weight2 s * wavelength2_nm c = wavelength_out_nm c)"
    if "Solver_init c = Inr s" for c
    using Solver_init_weights[OF that] by blast
  show ?thesis using d oe xyz init by blast
qed

theorem weights_of_evaluation_witness:
  "(set mode_sfg_OEE_swapped
      \<subseteq> {c. c < 128} \<union> {BoldO, BoldE, BoldX, BoldY, BoldZ, Arrow})
   \<and> delta_n_terms (sfg_solver dispersive_formulas) mode_sfg_OEE_swapped (Some 0)
        None None None None
      = Inr \<lparr>w1 = 2 / 3, n1 = 1, w2 = 1 / 3, n2 = 1, n_out = 1\<rparr>
   \<and> delta_n (sfg_solver dispersive_formulas) mode_sfg_OEE_swapped (Some 0) None None None None
      = Inr 0
   \<and> (2 / 3 :: real) = (1064 / 3) / 532 \<and> (1 / 3 :: real) = (1064 / 3) / 1064"
proof -
  from weights_of_evaluation [OF alphabet_sfg_swapped terms_sfg_swapped]
  have "delta_n (sfg_solver dispersive_formulas) mode_sfg_OEE_swapped (Some 0)
          None None None None = Inr 0
     \<and> (2 / 3 :: real) = (1064 / 3) / 532 \<and> (1 / 3 :: real) = (1064 / 3) / 1064"
    by (simp add: xyz_sfg_swapped sfg_solver_cfg in_effect_def first_label_sfg_swapped)
  then show ?thesis using alphabet_sfg_swapped terms_sfg_swapped by simp
qed






subsection \<open>Critical-angle solver\<close>

text \<open>The identifiers written at construction are well formed: one arrow, no axis
  letter, three wavelength labels, and a polarisation letter in the input part.\<close>

lemma digits_of_digits: "digits_of n \<noteq> [] \<and> list_all is_digit (digits_of n)"
proof (induction n rule: digits_of.induct)
  case (1 n)
  show ?case
  proof (cases "n < 10")
    case True
    then show ?thesis
      by (subst digits_of.simps, subst (2) digits_of.simps)
        (simp add: is_digit_def del: digits_of.simps)
  next
    case False
    have m: "n mod 10 < 10" by simp
    from False 1 have "list_all is_digit (digits_of (n div 10))"
      by (simp del: digits_of.simps)
    then show ?thesis using False m
      by (subst digits_of.simps, subst (2) digits_of.simps)
        (simp add: is_digit_def del: digits_of.simps)
  qed
qed

lemma fmt0_shape:
  obtains sg ds where "fmt0 x = sg @ ds" "ds \<noteq> []" "list_all is_digit ds"
    "sg = [] \<or> sg = [45]"
  using digits_of_digits [of "nat \<bar>round_half_even x\<bar>"]
  by (auto simp: fmt0_def simp del: digits_of.simps)

lemma fmt0_set: "set (fmt0 x) \<subseteq> {c. c < 128}"
proof -
  obtain sg ds where s: "fmt0 x = sg @ ds" "list_all is_digit ds" "sg = [] \<or> sg = [45]"
    by (rule fmt0_shape)
  from s(2) have "set ds \<subseteq> {c. c < 128}" by (auto simp: list_all_iff is_digit_def)
  then show ?thesis using s(1,3) by auto
qed

lemma py_split_none: "sep \<notin> set a \<Longrightarrow> py_split sep a = [a]"
  by (induction a) (auto simp: Let_def)

lemma py_split_nonempty: "py_split sep a \<noteq> []"
  by (induction a) (auto simp: Let_def)

lemma py_split_once: "sep \<notin> set a \<Longrightarrow> py_split sep (a @ sep # b) = a # py_split sep b"
  by (induction a) (auto simp: Let_def)

lemma dropWhile_keeps: "x \<in> set xs \<Longrightarrow> \<not> P x \<Longrightarrow> x \<in> set (dropWhile P xs)"
  by (induction xs) auto

lemma py_strip_keeps: "x \<in> set xs \<Longrightarrow> \<not> is_space x \<Longrightarrow> x \<in> set (py_strip xs)"
  by (simp add: py_strip_def dropWhile_keeps)

lemma findall_skip: "\<forall>c\<in>set pre. \<not> is_digit c \<Longrightarrow> findall_nm (pre @ rest) = findall_nm rest"
  by (induction pre) auto

lemma findall_label:
  assumes "ds \<noteq> []" "list_all is_digit ds"
  shows "findall_nm (ds @ 110 # 109 # rest) = ds # findall_nm rest"
proof -
  from assms obtain d ds' where ds: "ds = d # ds'" by (cases ds) auto
  have nd: "\<not> is_digit 110" by (simp add: is_digit_def)
  have tw: "takeWhile is_digit (ds @ 110 # 109 # rest) = ds"
    using assms(2) nd by (simp add: takeWhile_append2 list_all_iff)
  have dw: "dropWhile is_digit (ds @ 110 # 109 # rest) = 110 # 109 # rest"
    using assms(2) nd by (simp add: dropWhile_append2 list_all_iff)
  have "findall_nm (d # (ds' @ 110 # 109 # rest)) = ds # findall_nm rest"
    using assms(2) tw dw unfolding ds by (simp add: Let_def)
  then show ?thesis by (simp add: ds)
qed

lemma findall_nm_label:
  assumes "\<forall>c\<in>set pre. \<not> is_digit c"
  shows "\<exists>ds. findall_nm (pre @ nm_label x @ rest) = ds # findall_nm rest"
proof -
  obtain sg ds where s: "fmt0 x = sg @ ds" "ds \<noteq> []" "list_all is_digit ds" "sg = [] \<or> sg = [45]"
    by (rule fmt0_shape)
  have p: "\<forall>c\<in>set (pre @ sg). \<not> is_digit c" using assms s(4) by (auto simp: is_digit_def)
  have "pre @ nm_label x @ rest = (pre @ sg) @ (ds @ 110 # 109 # rest)"
    by (simp add: nm_label_def s(1) asc_def)
  then have "findall_nm (pre @ nm_label x @ rest) = findall_nm (ds @ 110 # 109 # rest)"
    using findall_skip [OF p] by simp
  then show ?thesis using findall_label [OF s(2,3)] by simp
qed

lemma nm_label_set: "set (nm_label x) \<subseteq> {c. c < 128}"
  using fmt0_set [of x] by (auto simp: nm_label_def asc_def)

lemma mode_name_parts:
  "mode_name_of p1 (nm_label a) p2 (nm_label b) po (nm_label w) ty =
     ([p1] @ asc '' ('' @ nm_label a @ asc '') + '' @ [p2] @ asc '' ('' @ nm_label b @ asc '') '')
     @ Arrow # (asc '' '' @ [po] @ asc '' ('' @ nm_label w @ asc '') ('' @ asc ty @ asc '')'')"
  by (simp add: mode_name_of_def)

lemma generated_mode_ok:
  assumes p: "p1 \<in> {BoldO, BoldE}" "p2 \<in> {BoldO, BoldE}" "po \<in> {BoldO, BoldE}"
    and ty: "ty \<in> {''Type I'', ''Type II''}"
  shows "length (py_split Arrow (mode_name_of p1 (nm_label a) p2 (nm_label b) po (nm_label w) ty)) = 2"
    and "\<not> is_xyz_notation (mode_name_of p1 (nm_label a) p2 (nm_label b) po (nm_label w) ty)"
    and "\<not> length (findall_nm (mode_name_of p1 (nm_label a) p2 (nm_label b) po (nm_label w) ty)) < 3"
    and "BoldO \<in> set (py_strip (py_split Arrow
            (mode_name_of p1 (nm_label a) p2 (nm_label b) po (nm_label w) ty) ! 0))
         \<or> BoldE \<in> set (py_strip (py_split Arrow
            (mode_name_of p1 (nm_label a) p2 (nm_label b) po (nm_label w) ty) ! 0))"
proof -
  let ?A = "[p1] @ asc '' ('' @ nm_label a @ asc '') + '' @ [p2] @ asc '' ('' @ nm_label b
              @ asc '') ''"
  let ?B = "asc '' '' @ [po] @ asc '' ('' @ nm_label w @ asc '') ('' @ asc ty @ asc '')''"
  let ?m = "mode_name_of p1 (nm_label a) p2 (nm_label b) po (nm_label w) ty"
  have m: "?m = ?A @ Arrow # ?B" by (rule mode_name_parts)
  have tyset: "set (asc ty) \<subseteq> {c. c < 128}" using ty by (auto simp: asc_def)
  have A: "set ?A \<subseteq> {c. c < 128} \<union> {BoldO, BoldE}"
    using p nm_label_set [of a] nm_label_set [of b] by (auto simp: asc_def)
  have B: "set ?B \<subseteq> {c. c < 128} \<union> {BoldO, BoldE}"
    using p nm_label_set [of w] tyset by (auto simp: asc_def)
  have nA: "Arrow \<notin> set ?A" using A by (auto simp: Arrow_def BoldO_def BoldE_def)
  have nB: "Arrow \<notin> set ?B" using B by (auto simp: Arrow_def BoldO_def BoldE_def)
  have split: "py_split Arrow ?m = [?A, ?B]"
    unfolding m using py_split_once [OF nA, of ?B] py_split_none [OF nB] by simp
  show "length (py_split Arrow ?m) = 2" by (simp only: split) simp
  have "set ?m \<subseteq> {c. c < 128} \<union> {BoldO, BoldE, Arrow}"
    unfolding m using A B by auto
  then show "\<not> is_xyz_notation ?m"
    by (auto simp: is_xyz_notation_def BoldX_def BoldY_def BoldZ_def BoldO_def BoldE_def
          Arrow_def)
  have nd: "\<not> is_digit p1" "\<not> is_digit p2" "\<not> is_digit po"
    using p by (auto simp: is_digit_def BoldO_def BoldE_def)
  have pre1: "\<forall>c\<in>set ([p1] @ asc '' (''). \<not> is_digit c"
    using nd by (simp add: asc_def is_digit_def)
  have pre2: "\<forall>c\<in>set (asc '') + '' @ [p2] @ asc '' (''). \<not> is_digit c"
    using nd by (simp add: asc_def is_digit_def)
  have pre3: "\<forall>c\<in>set (asc '') '' @ [Arrow] @ asc '' '' @ [po] @ asc '' (''). \<not> is_digit c"
    using nd by (simp add: asc_def is_digit_def Arrow_def)
  let ?r3 = "asc '') ('' @ asc ty @ asc '')''"
  let ?r2 = "(asc '') '' @ [Arrow] @ asc '' '' @ [po] @ asc '' ('') @ nm_label w @ ?r3"
  let ?r1 = "(asc '') + '' @ [p2] @ asc '' ('') @ nm_label b @ ?r2"
  have m1: "?m = ([p1] @ asc '' ('') @ nm_label a @ ?r1"
    by (simp add: mode_name_of_def)
  from findall_nm_label [OF pre1, of a ?r1] obtain d1
    where f1: "findall_nm ?m = d1 # findall_nm ?r1" unfolding m1 by blast
  from findall_nm_label [OF pre2, of b ?r2] obtain d2
    where f2: "findall_nm ?r1 = d2 # findall_nm ?r2" by blast
  from findall_nm_label [OF pre3, of w ?r3] obtain d3
    where f3: "findall_nm ?r2 = d3 # findall_nm ?r3" by blast
  show "\<not> length (findall_nm ?m) < 3" by (simp only: f1 f2 f3) simp
  have "p1 \<in> set ?A" by simp
  moreover have "\<not> is_space p1" using p by (auto simp: is_space_def BoldO_def BoldE_def)
  ultimately have "p1 \<in> set (py_strip ?A)" by (rule py_strip_keeps)
  then have "p1 \<in> set (py_strip (py_split Arrow ?m ! 0))" by (simp only: split) simp
  then show "BoldO \<in> set (py_strip (py_split Arrow ?m ! 0))
         \<or> BoldE \<in> set (py_strip (py_split Arrow ?m ! 0))"
    using p(1) by auto
qed

lemma generated_modes:
  assumes "m \<in> set (mode_names_of c)"
  shows "length (py_split Arrow m) = 2 \<and> \<not> is_xyz_notation m \<and> \<not> length (findall_nm m) < 3
    \<and> (BoldO \<in> set (py_strip (py_split Arrow m ! 0))
       \<or> BoldE \<in> set (py_strip (py_split Arrow m ! 0)))"
proof -
  have "\<forall>m\<in>set (mode_names_of c).
      length (py_split Arrow m) = 2 \<and> \<not> is_xyz_notation m \<and> \<not> length (findall_nm m) < 3
    \<and> (BoldO \<in> set (py_strip (py_split Arrow m ! 0))
       \<or> BoldE \<in> set (py_strip (py_split Arrow m ! 0)))"
    unfolding mode_names_of_def Let_def
    by (simp add: generated_mode_ok)
  then show ?thesis using assms by blast
qed

text \<open>On these identifiers, and with an angle, the phase mismatch always returns.\<close>

lemma Solver_init_fields:
  assumes "Solver_init c = Inr s"
  shows "cfg s = c" "mode_names s = mode_names_of c"
    "process_type c \<noteq> SHG \<Longrightarrow> wavelength1_nm c \<noteq> 0 \<and> wavelength2_nm c \<noteq> 0"
  using assms
  by (auto simp: Solver_init_def Let_def split: prod.splits if_splits)

lemma delta_n_generated_returns:
  assumes init: "Solver_init c = Inr s" and m: "m \<in> set (mode_names s)"
  shows "\<exists>v. delta_n s m (Some theta) None None None None = Inr v"
proof -
  from m have g: "m \<in> set (mode_names_of c)" by (simp add: Solver_init_fields(2) [OF init])
  note ok = generated_modes [OF g]
  have w: "process_type (cfg s) \<noteq> SHG \<longrightarrow>
      in_effect None (wavelength1_nm (cfg s)) \<noteq> 0 \<and> in_effect None (wavelength2_nm (cfg s)) \<noteq> 0"
    using Solver_init_fields(3) [OF init] by (simp add: Solver_init_fields(1) [OF init] in_effect_def)
  have "\<not> (\<exists>e. delta_n_terms s m (Some theta) None None None None = Inl e)"
    unfolding delta_n_terms_unfold using ok w
    by (auto simp: delta_n_oe_Inl_iff)
  then have "\<not> (\<exists>e. delta_n s m (Some theta) None None None None = Inl e)"
    by (simp add: delta_n_Inl_iff_terms)
  then show ?thesis by (cases "delta_n s m (Some theta) None None None None") auto
qed

lemma robust_solve_total:
  assumes eq: "equation_func rt = Inr v"
    and f: "fsolve equation_func guess = Inr (rt, ier)"
  shows "robust_solve fsolve equation_func guess =
     Inr (if ier = 1 \<and> 0 \<le> rt \<and> rt \<le> pi / 2 \<and> \<bar>v\<bar> < 1 / 10000 then Some rt else None)"
  using assms by (simp add: robust_solve_def Let_def)

lemma rad2deg_range: "0 \<le> rt \<Longrightarrow> rt \<le> pi / 2 \<Longrightarrow> 0 \<le> rad2deg rt \<and> rad2deg rt \<le> 90"
proof -
  assume a: "0 \<le> rt" "rt \<le> pi / 2"
  have p: "0 < pi" by simp
  have "rad2deg rt = rt * 180 / pi" by (simp add: rad2deg_def)
  moreover have "0 \<le> rt * 180 / pi" using a(1) p by simp
  moreover have "rt * 180 / pi \<le> 90"
  proof -
    have "rt * 180 \<le> 90 * pi" using a(2) by simp
    then show ?thesis using p by (simp add: pos_divide_le_eq)
  qed
  ultimately show ?thesis by simp
qed

lemma deg2rad_rad2deg: "deg2rad (rad2deg x) = x"
  by (simp add: deg2rad_def rad2deg_def)

lemma criticalangle_loop_total:
  assumes eq: "\<And>m x. m \<in> set ms \<Longrightarrow> \<exists>v. equations_deltan s m x = Inr v"
    and f: "\<And>m. m \<in> set ms \<Longrightarrow> \<exists>r. fsolve (equations_deltan s m) (pi / 4) = Inr r"
  shows "\<exists>res. criticalangle_loop fsolve s ms = Inr res \<and> map fst res = ms
    \<and> (\<forall>i<length res.
         \<exists>rt ier v. fsolve (equations_deltan s (fst (res ! i))) (pi / 4) = Inr (rt, ier)
            \<and> equations_deltan s (fst (res ! i)) rt = Inr v
            \<and> snd (res ! i) =
                (if ier = 1 \<and> 0 \<le> rt \<and> rt \<le> pi / 2 \<and> \<bar>v\<bar> < 1 / 10000
                 then Some (rad2deg rt) else None))"
  using assms
proof (induction ms)
  case Nil
  then show ?case by simp
next
  case (Cons m ms)
  from Cons.prems(2) [of m] obtain rt ier
    where fs: "fsolve (equations_deltan s m) (pi / 4) = Inr (rt, ier)" by auto
  from Cons.prems(1) [of m rt] obtain v where v: "equations_deltan s m rt = Inr v" by auto
  note rs = robust_solve_total [of "equations_deltan s m" rt v fsolve "pi / 4" ier, OF v fs]
  have "\<exists>res. criticalangle_loop fsolve s ms = Inr res \<and> map fst res = ms
    \<and> (\<forall>i<length res.
         \<exists>rt ier v. fsolve (equations_deltan s (fst (res ! i))) (pi / 4) = Inr (rt, ier)
            \<and> equations_deltan s (fst (res ! i)) rt = Inr v
            \<and> snd (res ! i) =
                (if ier = 1 \<and> 0 \<le> rt \<and> rt \<le> pi / 2 \<and> \<bar>v\<bar> < 1 / 10000
                 then Some (rad2deg rt) else None))"
    using Cons.prems by (intro Cons.IH) auto
  then obtain rest where rest: "criticalangle_loop fsolve s ms = Inr rest" "map fst rest = ms"
    and all: "\<forall>i<length rest.
         \<exists>rt ier v. fsolve (equations_deltan s (fst (rest ! i))) (pi / 4) = Inr (rt, ier)
            \<and> equations_deltan s (fst (rest ! i)) rt = Inr v
            \<and> snd (rest ! i) =
                (if ier = 1 \<and> 0 \<le> rt \<and> rt \<le> pi / 2 \<and> \<bar>v\<bar> < 1 / 10000
                 then Some (rad2deg rt) else None)"
    by blast
  let ?a = "if ier = 1 \<and> 0 \<le> rt \<and> rt \<le> pi / 2 \<and> \<bar>v\<bar> < 1 / 10000
            then Some (rad2deg rt) else None"
  have loop: "criticalangle_loop fsolve s (m # ms) = Inr ((m, ?a) # rest)"
    by (simp add: rs rest(1))
  have "\<forall>i<length ((m, ?a) # rest).
         \<exists>rt ier v. fsolve (equations_deltan s (fst (((m, ?a) # rest) ! i))) (pi / 4)
              = Inr (rt, ier)
            \<and> equations_deltan s (fst (((m, ?a) # rest) ! i)) rt = Inr v
            \<and> snd (((m, ?a) # rest) ! i) =
                (if ier = 1 \<and> 0 \<le> rt \<and> rt \<le> pi / 2 \<and> \<bar>v\<bar> < 1 / 10000
                 then Some (rad2deg rt) else None)"
  proof (intro allI impI)
    fix i assume i: "i < length ((m, ?a) # rest)"
    show "\<exists>rt ier v. fsolve (equations_deltan s (fst (((m, ?a) # rest) ! i))) (pi / 4)
              = Inr (rt, ier)
            \<and> equations_deltan s (fst (((m, ?a) # rest) ! i)) rt = Inr v
            \<and> snd (((m, ?a) # rest) ! i) =
                (if ier = 1 \<and> 0 \<le> rt \<and> rt \<le> pi / 2 \<and> \<bar>v\<bar> < 1 / 10000
                 then Some (rad2deg rt) else None)"
    proof (cases i)
      case 0
      show ?thesis unfolding 0 using fs v by (intro exI [of _ rt] exI [of _ ier] exI [of _ v]) simp
    next
      case (Suc j)
      then have "j < length rest" using i by simp
      then show ?thesis unfolding Suc using all by simp
    qed
  qed
  then show ?case using loop rest(2) by (intro exI [of _ "(m, ?a) # rest"]) simp
qed

lemma dict_keys_set: "set (dict_keys xs) = set xs"
  by (simp add: dict_keys_def)

lemma ne_func_7_1_quarter: "ne_func 7 1 (pi / 4) = 7 / 5"
proof -
  have c: "(cos (pi / 4))\<^sup>2 = 1 / 2" by (simp add: cos_45 power_divide)
  have s: "(sin (pi / 4))\<^sup>2 = 1 / 2" by (simp add: sin_45 power_divide)
  have "ne_func 7 1 (pi / 4) = sqrt ((7 / 5)\<^sup>2)"
    by (simp add: ne_func_def c s power_divide)
  also have "\<dots> = 7 / 5" by simp
  finally show ?thesis .
qed

lemma rad2deg_quarter: "rad2deg (pi / 4) = 45"
  by (simp add: rad2deg_def)

lemma guess_checking_finder_returns:
  "\<forall>f g. (\<forall>x. \<exists>v. f x = Inr v) \<longrightarrow> (\<exists>r. guess_checking_finder f g = Inr r)"
proof (intro allI impI)
  fix f :: "real \<Rightarrow> error + real" and g
  assume "\<forall>x. \<exists>v. f x = Inr v"
  then obtain v where "f g = Inr v" by blast
  then show "\<exists>r. guess_checking_finder f g = Inr r"
    by (simp add: guess_checking_finder_def)
qed

lemma criticalangle_example:
  "criticalangle guess_checking_finder (shg_solver (constant_formulas 1 (7 / 5) 7))
     = Inr [(mode_OOE, Some 45), (mode_EEO, Some 45), (mode_OEE, Some 45), (mode_OEO, Some 45)]"
  by (simp add: criticalangle_def shg_mode_keys robust_solve_def guess_checking_finder_def
        equations_deltan_def delta_n_const ne_func_7_1_quarter rad2deg_quarter Let_def)

text \<open>
  C1. Let the solver be constructed from a configuration, and let the root finder raise
  only what the equation raises. Then the critical-angle solver does not raise: it
  returns one entry per mode of the solver, in the order of the modes. The entry of a
  mode is decided by the answer of the root finder, a root and the flag \<open>ier\<close>, and by the
  phase mismatch \<open>v\<close> at that root: it is the root in degrees when \<open>ier = 1\<close>, the root lies
  in \<open>[0, pi / 2]\<close> and \<open>\<bar>v\<bar> < 1 / 10000\<close>, and the marker \<^verbatim>\<open>nan\<close> in every other case. So
  every angle that is returned lies between 0 and 90 degrees, and the phase mismatch of
  its mode at this angle is below \<open>1 / 10000\<close> in absolute value.
\<close>

theorem criticalangle_gate:
  assumes init: "Solver_init c = Inr s"
    and fs: "\<forall>f g. (\<forall>x. \<exists>v. f x = Inr v) \<longrightarrow> (\<exists>r. fsolve f g = Inr r)"
  shows "\<exists>res. criticalangle fsolve s = Inr res
    \<and> map fst res = dict_keys (mode_names s)
    \<and> (\<forall>i<length res.
         (\<exists>rt ier v. fsolve (equations_deltan s (fst (res ! i))) (pi / 4) = Inr (rt, ier)
            \<and> delta_n s (fst (res ! i)) (Some rt) None None None None = Inr v
            \<and> snd (res ! i) =
                (if ier = 1 \<and> 0 \<le> rt \<and> rt \<le> pi / 2 \<and> \<bar>v\<bar> < 1 / 10000
                 then Some (rad2deg rt) else None))
       \<and> (\<forall>a. snd (res ! i) = Some a \<longrightarrow>
             0 \<le> a \<and> a \<le> 90
           \<and> (\<exists>v. delta_n s (fst (res ! i)) (Some (deg2rad a)) None None None None = Inr v
                \<and> \<bar>v\<bar> < 1 / 10000)))"
proof -
  let ?ms = "dict_keys (mode_names s)"
  have eq: "\<exists>v. equations_deltan s m x = Inr v" if "m \<in> set ?ms" for m x
    using delta_n_generated_returns [OF init, of m x] that
    by (simp add: dict_keys_set equations_deltan_def)
  have f: "\<exists>r. fsolve (equations_deltan s m) (pi / 4) = Inr r" if "m \<in> set ?ms" for m
    using fs eq [OF that] by blast
  from criticalangle_loop_total [of ?ms s fsolve, OF eq f]
  obtain res where res: "criticalangle_loop fsolve s ?ms = Inr res" "map fst res = ?ms"
    and all: "\<forall>i<length res.
         \<exists>rt ier v. fsolve (equations_deltan s (fst (res ! i))) (pi / 4) = Inr (rt, ier)
            \<and> equations_deltan s (fst (res ! i)) rt = Inr v
            \<and> snd (res ! i) =
                (if ier = 1 \<and> 0 \<le> rt \<and> rt \<le> pi / 2 \<and> \<bar>v\<bar> < 1 / 10000
                 then Some (rad2deg rt) else None)"
    by blast
  have entry: "(\<exists>rt ier v. fsolve (equations_deltan s (fst (res ! i))) (pi / 4) = Inr (rt, ier)
            \<and> delta_n s (fst (res ! i)) (Some rt) None None None None = Inr v
            \<and> snd (res ! i) =
                (if ier = 1 \<and> 0 \<le> rt \<and> rt \<le> pi / 2 \<and> \<bar>v\<bar> < 1 / 10000
                 then Some (rad2deg rt) else None))
       \<and> (\<forall>a. snd (res ! i) = Some a \<longrightarrow>
             0 \<le> a \<and> a \<le> 90
           \<and> (\<exists>v. delta_n s (fst (res ! i)) (Some (deg2rad a)) None None None None = Inr v
                \<and> \<bar>v\<bar> < 1 / 10000))"
    if i: "i < length res" for i
  proof -
    from all i obtain rt ier v
      where a: "fsolve (equations_deltan s (fst (res ! i))) (pi / 4) = Inr (rt, ier)"
        and b: "delta_n s (fst (res ! i)) (Some rt) None None None None = Inr v"
        and c: "snd (res ! i) =
                (if ier = 1 \<and> 0 \<le> rt \<and> rt \<le> pi / 2 \<and> \<bar>v\<bar> < 1 / 10000
                 then Some (rad2deg rt) else None)"
      unfolding equations_deltan_def by blast
    have "0 \<le> a \<and> a \<le> 90
           \<and> (\<exists>v. delta_n s (fst (res ! i)) (Some (deg2rad a)) None None None None = Inr v
                \<and> \<bar>v\<bar> < 1 / 10000)"
      if "snd (res ! i) = Some a" for a
    proof -
      from that c have g: "ier = 1 \<and> 0 \<le> rt \<and> rt \<le> pi / 2 \<and> \<bar>v\<bar> < 1 / 10000"
        and a: "a = rad2deg rt"
        by (auto split: if_splits)
      from g have "0 \<le> a \<and> a \<le> 90" unfolding a by (intro rad2deg_range) simp_all
      moreover have "deg2rad a = rt" unfolding a by (rule deg2rad_rad2deg)
      ultimately show ?thesis using b g by auto
    qed
    then show ?thesis using a b c by blast
  qed
  have "criticalangle fsolve s = Inr res" by (simp add: criticalangle_def res(1))
  then show ?thesis using res(2) entry by blast
qed

theorem criticalangle_gate_witness:
  "Solver_init (shg_config (constant_formulas 1 (7 / 5) 7))
     = Inr (shg_solver (constant_formulas 1 (7 / 5) 7))
   \<and> criticalangle guess_checking_finder (shg_solver (constant_formulas 1 (7 / 5) 7))
     = Inr [(mode_OOE, Some 45), (mode_EEO, Some 45), (mode_OEE, Some 45), (mode_OEO, Some 45)]
   \<and> (0 :: real) \<le> 45 \<and> (45 :: real) \<le> 90
   \<and> (\<exists>v. delta_n (shg_solver (constant_formulas 1 (7 / 5) 7)) mode_OOE (Some (deg2rad 45))
           None None None None = Inr v \<and> \<bar>v\<bar> < 1 / 10000)"
proof -
  let ?s = "shg_solver (constant_formulas 1 (7 / 5) 7)"
  let ?r = "[(mode_OOE, Some (45 :: real)), (mode_EEO, Some 45), (mode_OEE, Some 45),
             (mode_OEO, Some 45)]"
  from criticalangle_gate [OF init_ok guess_checking_finder_returns]
  obtain res where res: "criticalangle guess_checking_finder ?s = Inr res"
    and all: "\<forall>i<length res. \<forall>a. snd (res ! i) = Some a \<longrightarrow>
             0 \<le> a \<and> a \<le> 90
           \<and> (\<exists>v. delta_n ?s (fst (res ! i)) (Some (deg2rad a)) None None None None = Inr v
                \<and> \<bar>v\<bar> < 1 / 10000)"
    by blast
  from res have r: "res = ?r" by (simp add: criticalangle_example)
  from all [rule_format, of 0 45]
  have "(0 :: real) \<le> 45 \<and> (45 :: real) \<le> 90
   \<and> (\<exists>v. delta_n ?s mode_OOE (Some (deg2rad 45)) None None None None = Inr v
        \<and> \<bar>v\<bar> < 1 / 10000)"
    unfolding r by simp
  then show ?thesis using init_ok criticalangle_example by simp
qed

end
